theory Spec2Isabelle
  imports Main "HOL-Library.Sublist" "HOL-Library.AList"
begin

section \<open>RDF terms and the triple store\<close>

text \<open>
  The client keeps every resource in an rdflib \<open>IndexedFormula\<close>. A term is a named node,
  a blank node, a literal (value, language, datatype URI) or the default graph; its
  \<open>.value\<close> is the string it carries (the empty string for the default graph).
\<close>

datatype node =
    NamedNode string
  | BlankNode string
  | Literal string string string
  | DefaultGraph

fun node_value :: "node \<Rightarrow> string" where
  "node_value (NamedNode u) = u"
| "node_value (BlankNode i) = i"
| "node_value (Literal v lang dt) = v"
| "node_value DefaultGraph = []"

fun isNamedNode :: "node \<Rightarrow> bool" where
  "isNamedNode (NamedNode u) = True"
| "isNamedNode n = False"

datatype statement = Statement (subject: node) (predicate: node) (object: node) (why: node)

text \<open>
  The store is the list of its statements in insertion order. A pattern position left
  \<open>undefined\<close> (here \<open>None\<close>) matches every term.
\<close>

type_synonym IndexedFormula = "statement list"

datatype validator = BaseConfig | Only302

record request =
  http_method :: string
  url :: string
  req_headers :: "(string \<times> string) list"
  req_data :: "string option"
  auth :: "(string \<times> string) option"
  maxRedirects :: "nat option"
  validateStatus :: validator

record response =
  status :: nat
  headers :: "(string \<times> string) list"
  data :: string
  config :: request

datatype error =
    JsError string
  | TypeError string
  | NetworkError string
  | BadStatus response

definition wild :: "node option \<Rightarrow> node \<Rightarrow> bool" where
  "wild pat n = (case pat of None \<Rightarrow> True | Some m \<Rightarrow> m = n)"

definition matching :: "node option \<Rightarrow> node option \<Rightarrow> node option \<Rightarrow> node option \<Rightarrow> statement \<Rightarrow> bool" where
  "matching s p ob g st =
     (wild s (subject st) \<and> wild p (predicate st) \<and> wild ob (object st) \<and> wild g (why st))"

definition statementsMatching ::
  "IndexedFormula \<Rightarrow> node option \<Rightarrow> node option \<Rightarrow> node option \<Rightarrow> node option \<Rightarrow> statement list" where
  "statementsMatching kb s p ob g = filter (matching s p ob g) kb"

definition store_each :: "IndexedFormula \<Rightarrow> node \<Rightarrow> node \<Rightarrow> node list" where
  "store_each kb s p = map object (statementsMatching kb (Some s) (Some p) None None)"

text \<open>
  \<open>any(s, p, undefined)\<close> returns, from the first matching statement, the term at the first
  position left undefined: the object when the predicate is given, the predicate when it is not.
\<close>

definition store_any :: "IndexedFormula \<Rightarrow> node \<Rightarrow> node option \<Rightarrow> node option" where
  "store_any kb s p =
     (case statementsMatching kb (Some s) p None None of
        [] \<Rightarrow> None
      | st # _ \<Rightarrow> (case p of None \<Rightarrow> Some (predicate st) | Some q \<Rightarrow> Some (object st)))"

definition store_the :: "IndexedFormula \<Rightarrow> node \<Rightarrow> node option \<Rightarrow> node option" where
  "store_the kb s p = store_any kb s p"

text \<open>
  \<open>add\<close> without a graph argument files the statement under the default graph and ignores
  a statement the store already holds. \<open>remove\<close> of an array removes, for each element,
  the first statement equal to it and throws when there is none.
\<close>

definition store_add :: "IndexedFormula \<Rightarrow> node \<Rightarrow> node \<Rightarrow> node \<Rightarrow> IndexedFormula" where
  "store_add kb s p ob =
     (if Statement s p ob DefaultGraph \<in> set kb then kb
      else kb @ [Statement s p ob DefaultGraph])"

fun store_remove :: "statement list \<Rightarrow> IndexedFormula \<Rightarrow> error + IndexedFormula" where
  "store_remove [] kb = Inr kb"
| "store_remove (st # sts) kb =
     (if st \<in> set kb then store_remove sts (remove1 st kb)
      else Inl (JsError ''Statement to be removed is not on store''))"

text \<open>Adding an array of statements, as a parser or \<open>kb.add(statements)\<close> does: each with its own graph.\<close>

definition store_add_statement :: "IndexedFormula \<Rightarrow> statement \<Rightarrow> IndexedFormula" where
  "store_add_statement kb st = (if st \<in> set kb then kb else kb @ [st])"

definition store_add_all :: "IndexedFormula \<Rightarrow> statement list \<Rightarrow> IndexedFormula" where
  "store_add_all kb sts = foldl store_add_statement kb sts"

section \<open>Namespaces\<close>

definition dcterms :: "string \<Rightarrow> node" where
  "dcterms n = NamedNode (''http://purl.org/dc/terms/'' @ n)"

definition oslc :: "string \<Rightarrow> node" where
  "oslc n = NamedNode (''http://open-services.net/ns/core#'' @ n)"

definition rdfs :: "string \<Rightarrow> node" where
  "rdfs n = NamedNode (''http://www.w3.org/2000/01/rdf-schema#'' @ n)"

definition oslc_cm1 :: "string \<Rightarrow> node" where
  "oslc_cm1 n = NamedNode (''http://open-services.net/xmlns/cm/1.0/'' @ n)"

definition oslc_rm :: "string \<Rightarrow> node" where
  "oslc_rm n = NamedNode (''http://open-services.net/ns/rm#'' @ n)"

definition oslc_qm1 :: "string \<Rightarrow> node" where
  "oslc_qm1 n = NamedNode (''http://open-services.net/xmlns/qm/1.0/'' @ n)"

section \<open>OSLCResource\<close>

text \<open>
  \<open>new URL(u)\<close> is the platform's parser: it is a parameter \<open>parseURL\<close> of the model,
  \<open>None\<close> where the platform throws \<open>TypeError: Invalid URL\<close>.
\<close>

record URL =
  origin :: string
  pathname :: string
  search :: string
  hash :: string

definition URL_toString :: "URL \<Rightarrow> string" where
  "URL_toString u = origin u @ pathname u @ search u @ hash u"

record OSLCResource =
  uri :: node
  store :: IndexedFormula
  etag :: "string option"
  queryURI :: "string option"

text \<open>
  The constructor. A missing or empty \<open>uri\<close> gives an empty resource on a blank node,
  whose fresh identifier is the parameter \<open>bnode\<close>.
\<close>

definition OSLCResource_new ::
  "(string \<Rightarrow> URL option) \<Rightarrow> string \<Rightarrow> string option \<Rightarrow> IndexedFormula option \<Rightarrow> string option
     \<Rightarrow> error + OSLCResource" where
  "OSLCResource_new parseURL bnode u kb tag =
     (if u \<noteq> None \<and> u \<noteq> Some []
      then (case parseURL (the u) of
              None \<Rightarrow> Inl (TypeError ''Invalid URL'')
            | Some resourceURI \<Rightarrow>
                Inr \<lparr> uri = NamedNode (origin resourceURI @ pathname resourceURI),
                      store = (case kb of None \<Rightarrow> [] | Some g \<Rightarrow> g),
                      etag = tag,
                      queryURI = u \<rparr>)
      else Inr \<lparr> uri = BlankNode bnode, store = [], etag = None, queryURI = None \<rparr>)"

definition getURI :: "OSLCResource \<Rightarrow> string" where
  "getURI r = node_value (uri r)"

text \<open>
  A property is given as a string (turned into a symbol by the store) or as a named node. The
  string is a property URI, an absolute IRI; for a string that is none the store's \<open>sym\<close>
  throws, which has no branch here.
\<close>

datatype property = PropertyURI string | PropertyNode node

fun property_sym :: "property \<Rightarrow> node" where
  "property_sym (PropertyURI s) = NamedNode s"
| "property_sym (PropertyNode n) = n"

datatype PropertyValue = Undefined | Str string | Arr "string list"

definition OSLCResource_get :: "OSLCResource \<Rightarrow> property \<Rightarrow> PropertyValue" where
  "OSLCResource_get r property =
     (let p = property_sym property;
          result = store_each (store r) (uri r) p
      in if length result = 1 then Str (node_value (result ! 0))
         else if length result > 1 then Arr (map node_value result)
         else Undefined)"

text \<open>The value given to \<open>set\<close>: one node, an array of nodes, or \<open>undefined\<close>.\<close>

datatype set_value = Absent | One node | Many "node list"

definition OSLCResource_set :: "OSLCResource \<Rightarrow> property \<Rightarrow> set_value \<Rightarrow> error + OSLCResource" where
  "OSLCResource_set r property v =
     (let p = property_sym property;
          subj = uri r
      in case store_remove (statementsMatching (store r) (Some subj) (Some p) None None) (store r) of
           Inl e \<Rightarrow> Inl e
         | Inr kb \<Rightarrow>
             (case v of
                Absent \<Rightarrow> Inr (r\<lparr>store := kb\<rparr>)
              | Many vs \<Rightarrow> Inr (r\<lparr>store := foldl (\<lambda>g x. store_add g subj p x) kb vs\<rparr>)
              | One x \<Rightarrow> Inr (r\<lparr>store := store_add kb subj p x\<rparr>)))"

definition first_of :: "PropertyValue \<Rightarrow> string option" where
  "first_of result =
     (case result of
        Undefined \<Rightarrow> None
      | Str s \<Rightarrow> Some s
      | Arr xs \<Rightarrow> (case xs of [] \<Rightarrow> None | x # _ \<Rightarrow> Some x))"

definition getIdentifier :: "OSLCResource \<Rightarrow> string option" where
  "getIdentifier r = first_of (OSLCResource_get r (PropertyNode (dcterms ''identifier'')))"

definition getTitle :: "OSLCResource \<Rightarrow> string option" where
  "getTitle r = first_of (OSLCResource_get r (PropertyNode (dcterms ''title'')))"

definition getShortTitle :: "OSLCResource \<Rightarrow> string option" where
  "getShortTitle r = first_of (OSLCResource_get r (PropertyNode (oslc ''shortTitle'')))"

definition getDescription :: "OSLCResource \<Rightarrow> string option" where
  "getDescription r = first_of (OSLCResource_get r (PropertyNode (dcterms ''description'')))"

text \<open>\<open>$rdf.literal(value)\<close> is a plain literal: no language, datatype \<open>xsd:string\<close>.\<close>

definition literal :: "string \<Rightarrow> node" where
  "literal v = Literal v [] ''http://www.w3.org/2001/XMLSchema#string''"

definition setTitle :: "OSLCResource \<Rightarrow> string \<Rightarrow> error + OSLCResource" where
  "setTitle r v = OSLCResource_set r (PropertyNode (dcterms ''title'')) (One (literal v))"

definition setDescription :: "OSLCResource \<Rightarrow> string \<Rightarrow> error + OSLCResource" where
  "setDescription r v = OSLCResource_set r (PropertyNode (dcterms ''description'')) (One (literal v))"

text \<open>A JavaScript \<open>Set\<close> keeps insertion order and drops what it already has.\<close>

definition getLinkTypes :: "OSLCResource \<Rightarrow> string list" where
  "getLinkTypes r =
     foldl (\<lambda>linkTypes st.
              if isNamedNode (object st) \<and> node_value (predicate st) \<notin> set linkTypes
              then linkTypes @ [node_value (predicate st)] else linkTypes)
       [] (statementsMatching (store r) (Some (uri r)) None None None)"

definition getProperties_step :: "(string \<times> PropertyValue) list \<Rightarrow> statement \<Rightarrow> (string \<times> PropertyValue) list" where
  "getProperties_step result st =
     (let key = node_value (predicate st); v = node_value (object st)
      in case map_of result key of
           None \<Rightarrow> result @ [(key, Str v)]
         | Some Undefined \<Rightarrow> AList.update key (Str v) result
         | Some (Str x) \<Rightarrow> AList.update key (Arr [x, v]) result
         | Some (Arr xs) \<Rightarrow> AList.update key (Arr (xs @ [v])) result)"

definition getProperties :: "OSLCResource \<Rightarrow> (string \<times> PropertyValue) list" where
  "getProperties r =
     foldl getProperties_step [] (statementsMatching (store r) (Some (uri r)) None None None)"

text \<open>
  A method call on a resource: what it returns and the object it leaves behind. The fields
  are \<open>readonly\<close>; only \<open>set\<close> (and the setters built on it) touch the store.
\<close>

datatype method_call =
    Call_getURI
  | Call_get property
  | Call_set property set_value
  | Call_getIdentifier
  | Call_getTitle
  | Call_getShortTitle
  | Call_getDescription
  | Call_setTitle string
  | Call_setDescription string
  | Call_getLinkTypes
  | Call_getProperties

datatype returned =
    Void
  | RString string
  | ROptString "string option"
  | RValue PropertyValue
  | RSet "string list"
  | RRecord "(string \<times> PropertyValue) list"

definition after_set :: "OSLCResource \<Rightarrow> error + OSLCResource \<Rightarrow> (error + returned) \<times> OSLCResource" where
  "after_set r res = (case res of Inl e \<Rightarrow> (Inl e, r) | Inr r' \<Rightarrow> (Inr Void, r'))"

fun call :: "method_call \<Rightarrow> OSLCResource \<Rightarrow> (error + returned) \<times> OSLCResource" where
  "call Call_getURI r = (Inr (RString (getURI r)), r)"
| "call (Call_get p) r = (Inr (RValue (OSLCResource_get r p)), r)"
| "call (Call_set p v) r = after_set r (OSLCResource_set r p v)"
| "call Call_getIdentifier r = (Inr (ROptString (getIdentifier r)), r)"
| "call Call_getTitle r = (Inr (ROptString (getTitle r)), r)"
| "call Call_getShortTitle r = (Inr (ROptString (getShortTitle r)), r)"
| "call Call_getDescription r = (Inr (ROptString (getDescription r)), r)"
| "call (Call_setTitle v) r = after_set r (setTitle r v)"
| "call (Call_setDescription v) r = after_set r (setDescription r v)"
| "call Call_getLinkTypes r = (Inr (RSet (getLinkTypes r)), r)"
| "call Call_getProperties r = (Inr (RRecord (getProperties r)), r)"

fun calls :: "method_call list \<Rightarrow> OSLCResource \<Rightarrow> OSLCResource" where
  "calls [] r = r"
| "calls (c # cs) r = calls cs (snd (call c r))"

text \<open>
  What the round-trip property of \<open>set\<close> and \<open>get\<close> promises for a value: nothing for an
  absent or empty value, the string of a single value, the strings in order otherwise.
\<close>

fun round_trip :: "set_value \<Rightarrow> PropertyValue" where
  "round_trip Absent = Undefined"
| "round_trip (One x) = Str (node_value x)"
| "round_trip (Many []) = Undefined"
| "round_trip (Many [x]) = Str (node_value x)"
| "round_trip (Many xs) = Arr (map node_value xs)"

text \<open>The values of an array with every repetition of an earlier node left out.\<close>

fun first_occurrences :: "'a list \<Rightarrow> 'a list \<Rightarrow> 'a list" where
  "first_occurrences seen [] = []"
| "first_occurrences seen (x # xs) =
     (if x \<in> set seen then first_occurrences seen xs else x # first_occurrences (seen @ [x]) xs)"

fun stored_values :: "set_value \<Rightarrow> set_value" where
  "stored_values Absent = Absent"
| "stored_values (One x) = One x"
| "stored_values (Many xs) = Many (first_occurrences [] xs)"

fun values_of :: "set_value \<Rightarrow> node list" where
  "values_of Absent = []"
| "values_of (One x) = [x]"
| "values_of (Many xs) = xs"

text \<open>Calling \<open>set\<close> and then \<open>get\<close> on the same property.\<close>

definition set_then_get :: "OSLCResource \<Rightarrow> property \<Rightarrow> set_value \<Rightarrow> error + PropertyValue" where
  "set_then_get r p v =
     (case OSLCResource_set r p v of
        Inl e \<Rightarrow> Inl e
      | Inr r' \<Rightarrow> Inr (OSLCResource_get r' p))"

section \<open>ServiceProvider, ServiceProviderCatalog, RootServices\<close>

text \<open>The three discovery documents are resources; their constructors only call \<open>super\<close>.\<close>

definition ServiceProvider_new ::
  "(string \<Rightarrow> URL option) \<Rightarrow> string \<Rightarrow> string \<Rightarrow> IndexedFormula \<Rightarrow> string option \<Rightarrow> error + OSLCResource" where
  "ServiceProvider_new parseURL bnode u kb tag = OSLCResource_new parseURL bnode (Some u) (Some kb) tag"

definition ServiceProviderCatalog_new ::
  "(string \<Rightarrow> URL option) \<Rightarrow> string \<Rightarrow> string \<Rightarrow> IndexedFormula \<Rightarrow> string option \<Rightarrow> error + OSLCResource" where
  "ServiceProviderCatalog_new parseURL bnode u kb tag = OSLCResource_new parseURL bnode (Some u) (Some kb) tag"

definition RootServices_new ::
  "(string \<Rightarrow> URL option) \<Rightarrow> string \<Rightarrow> string \<Rightarrow> IndexedFormula \<Rightarrow> string option \<Rightarrow> error + OSLCResource" where
  "RootServices_new parseURL bnode u kb tag = OSLCResource_new parseURL bnode (Some u) (Some kb) tag"

text \<open>The resource type asked for: a string or a named node.\<close>

datatype resourceType = TypeString string | TypeNode node

fun resourceType_sym :: "resourceType \<Rightarrow> node" where
  "resourceType_sym (TypeString s) = NamedNode s"
| "resourceType_sym (TypeNode n) = n"

text \<open>\<open>x?.value || null\<close>: the value of the first match, \<open>null\<close> when there is none or it is empty.\<close>

definition value_or_null :: "node option \<Rightarrow> string option" where
  "value_or_null x =
     (case x of None \<Rightarrow> None | Some n \<Rightarrow> if node_value n = [] then None else Some (node_value n))"

text \<open>
  The nested loops of \<open>getQueryBase\<close> and \<open>getCreationFactory\<close>. A loop gives \<open>Some r\<close> when
  its body returned \<open>r\<close> from the method, \<open>None\<close> when it ran to its end.
\<close>

fun queryCapabilities_loop :: "IndexedFormula \<Rightarrow> node \<Rightarrow> node list \<Rightarrow> string option option" where
  "queryCapabilities_loop kb resourceTypeSym [] = None"
| "queryCapabilities_loop kb resourceTypeSym (queryCapability # rest) =
     (if length (statementsMatching kb (Some queryCapability) (Some (oslc ''resourceType''))
                   (Some resourceTypeSym) None) \<noteq> 0
      then Some (value_or_null (store_the kb queryCapability (Some (oslc ''queryBase''))))
      else queryCapabilities_loop kb resourceTypeSym rest)"

fun query_services_loop :: "IndexedFormula \<Rightarrow> node \<Rightarrow> node list \<Rightarrow> string option option" where
  "query_services_loop kb resourceTypeSym [] = None"
| "query_services_loop kb resourceTypeSym (service # rest) =
     (case queryCapabilities_loop kb resourceTypeSym (store_each kb service (oslc ''queryCapability'')) of
        Some r \<Rightarrow> Some r
      | None \<Rightarrow> query_services_loop kb resourceTypeSym rest)"

definition getQueryBase :: "OSLCResource \<Rightarrow> resourceType \<Rightarrow> string option" where
  "getQueryBase r rt =
     (case query_services_loop (store r) (resourceType_sym rt) (store_each (store r) (uri r) (oslc ''service'')) of
        Some res \<Rightarrow> res
      | None \<Rightarrow> None)"

fun types_loop :: "IndexedFormula \<Rightarrow> node \<Rightarrow> string \<Rightarrow> node list \<Rightarrow> string option option" where
  "types_loop kb creationFactory rt [] = None"
| "types_loop kb creationFactory rt (aType # rest) =
     (if suffix rt (node_value aType)
      then Some (value_or_null (store_the kb creationFactory (Some (oslc ''creation''))))
      else types_loop kb creationFactory rt rest)"

fun creationFactories_loop :: "IndexedFormula \<Rightarrow> resourceType \<Rightarrow> node list \<Rightarrow> string option option" where
  "creationFactories_loop kb rt [] = None"
| "creationFactories_loop kb rt (creationFactory # rest) =
     (case rt of
        TypeString s \<Rightarrow>
          (case types_loop kb creationFactory s (store_each kb creationFactory (oslc ''resourceType'')) of
             Some r \<Rightarrow> Some r
           | None \<Rightarrow> creationFactories_loop kb rt rest)
      | TypeNode n \<Rightarrow>
          if length (statementsMatching kb (Some creationFactory) (Some (oslc ''resourceType'')) (Some n) None) = 1
          then Some (value_or_null (store_the kb creationFactory (Some (oslc ''creation''))))
          else creationFactories_loop kb rt rest)"

fun services_loop :: "IndexedFormula \<Rightarrow> resourceType \<Rightarrow> node list \<Rightarrow> string option option" where
  "services_loop kb rt [] = None"
| "services_loop kb rt (service # rest) =
     (case creationFactories_loop kb rt (store_each kb service (oslc ''creationFactory'')) of
        Some r \<Rightarrow> Some r
      | None \<Rightarrow> services_loop kb rt rest)"

definition getCreationFactory :: "OSLCResource \<Rightarrow> resourceType \<Rightarrow> string option" where
  "getCreationFactory r rt =
     (case services_loop (store r) rt (store_each (store r) (uri r) (oslc ''service'')) of
        Some res \<Rightarrow> res
      | None \<Rightarrow> None)"

text \<open>
  What \<open>getCreationFactory\<close> is said to compute: the creation factories of all services in
  order, the test that a factory is of the type asked for, and the creation URI of a factory.
\<close>

definition creationFactories :: "OSLCResource \<Rightarrow> node list" where
  "creationFactories r =
     concat (map (\<lambda>service. store_each (store r) service (oslc ''creationFactory''))
                 (store_each (store r) (uri r) (oslc ''service'')))"

fun of_type :: "IndexedFormula \<Rightarrow> resourceType \<Rightarrow> node \<Rightarrow> bool" where
  "of_type kb (TypeString s) cf =
     list_ex (\<lambda>aType. suffix s (node_value aType)) (store_each kb cf (oslc ''resourceType''))"
| "of_type kb (TypeNode n) cf =
     (length (filter (\<lambda>st. subject st = cf \<and> predicate st = oslc ''resourceType'' \<and> object st = n) kb) = 1)"

definition creation_of :: "IndexedFormula \<Rightarrow> node \<Rightarrow> string option" where
  "creation_of kb cf = value_or_null (store_the kb cf (Some (oslc ''creation'')))"

definition XMLLiteral :: string where
  "XMLLiteral = ''http://www.w3.org/1999/02/22-rdf-syntax-ns#XMLLiteral''"

definition serviceProvider :: "OSLCResource \<Rightarrow> string \<Rightarrow> string option" where
  "serviceProvider r serviceProviderTitle =
     (let sp = statementsMatching (store r) None (Some (dcterms ''title''))
                 (Some (Literal serviceProviderTitle [] XMLLiteral)) None
      in case sp of [] \<Rightarrow> None | st # _ \<Rightarrow> Some (node_value (subject st)))"

definition serviceProviderCatalog :: "OSLCResource \<Rightarrow> node option \<Rightarrow> string option" where
  "serviceProviderCatalog r serviceProviders =
     (case store_the (store r) (uri r) serviceProviders of
        None \<Rightarrow> None
      | Some catalog \<Rightarrow> Some (node_value catalog))"

section \<open>The transport and its authentication negotiator\<close>

text \<open>
  An awaited call settles with a value, settles with an error, or is still pending when the
  budget of nested requests is used up. The state threaded through every call holds the
  servers and the cookie jar (\<open>world\<close>), the requests dispatched so far and the console.
\<close>

datatype 'a promise = Resolved 'a | Rejected error | Pending

datatype log_entry = ConsoleError string "error option" | ConsoleWarn string

record 'w system =
  world :: 'w
  sent :: "request list"
  console :: "log_entry list"

type_synonym 'w server = "request \<Rightarrow> 'w \<Rightarrow> (error + response) \<times> 'w"

type_synonym 'w client = "request \<Rightarrow> 'w system \<Rightarrow> response promise \<times> 'w system"

text \<open>
  What the platform and the libraries supply: the URL parser, the identifier of a fresh blank
  node, the encoding of a form value, the graph parser (the statements it adds to the store,
  in order, and the error it throws, if any), the serializer, and the kind of host.
\<close>

record runtime =
  newURL :: "string \<Rightarrow> URL option"
  blankNodeId :: string
  formEncode :: "string \<Rightarrow> string"
  rdfParse :: "string \<Rightarrow> string \<Rightarrow> string option \<Rightarrow> statement list \<times> error option"
  serialize :: "IndexedFormula \<Rightarrow> string"
  isNodeEnvironment :: bool

record OSLCClient =
  userid :: string
  password :: string
  configuration_context :: "string option"
  rootservices :: "OSLCResource option"
  spc :: "OSLCResource option"
  sp :: "OSLCResource option"
  base_url :: "string option"

definition write_console :: "log_entry \<Rightarrow> 'w system \<Rightarrow> 'w system" where
  "write_console e s = s\<lparr>console := console s @ [e]\<rparr>"

definition await :: "'a promise \<times> 's \<Rightarrow> ('a \<Rightarrow> 's \<Rightarrow> 'b promise \<times> 's) \<Rightarrow> 'b promise \<times> 's" where
  "await m f =
     (case fst m of
        Resolved x \<Rightarrow> f x (snd m)
      | Rejected e \<Rightarrow> (Rejected e, snd m)
      | Pending \<Rightarrow> (Pending, snd m))"

definition catch :: "'a promise \<times> 's \<Rightarrow> (error \<Rightarrow> 's \<Rightarrow> 'a promise \<times> 's) \<Rightarrow> 'a promise \<times> 's" where
  "catch m h =
     (case fst m of
        Resolved x \<Rightarrow> m
      | Rejected e \<Rightarrow> h e (snd m)
      | Pending \<Rightarrow> m)"

fun validate :: "validator \<Rightarrow> nat \<Rightarrow> bool" where
  "validate BaseConfig st = (st = 401 \<or> st < 400)"
| "validate Only302 st = (st = 302)"

fun str_includes :: "string \<Rightarrow> string \<Rightarrow> bool" where
  "str_includes [] needle = (needle = [])"
| "str_includes (c # cs) needle = (prefix needle (c # cs) \<or> str_includes cs needle)"

fun split_slash :: "string \<Rightarrow> string list" where
  "split_slash [] = [[]]"
| "split_slash (c # cs) =
     (if c = CHR ''/'' then [] # split_slash cs
      else (case split_slash cs of [] \<Rightarrow> [[c]] | seg # segs \<Rightarrow> (c # seg) # segs))"

definition j_security_check_path :: "string \<Rightarrow> string" where
  "j_security_check_path path =
     (let paths = split_slash path
      in if 1 < length paths \<and> paths ! 1 \<noteq> [] then ''/'' @ paths ! 1 @ ''/j_security_check''
         else ''/j_security_check'')"

definition dquote :: char where
  "dquote = CHR 0x22"

fun token_uri_match :: "string \<Rightarrow> string option" where
  "token_uri_match [] = None"
| "token_uri_match (c # cs) =
     (if prefix (''token_uri='' @ [dquote]) (c # cs)
      then (let rest = drop 11 (c # cs); v = takeWhile (\<lambda>x. x \<noteq> dquote) rest
            in if v \<noteq> [] \<and> length v < length rest then Some v else token_uri_match cs)
      else token_uri_match cs)"

fun join_with :: "string \<Rightarrow> string list \<Rightarrow> string" where
  "join_with sep [] = []"
| "join_with sep [x] = x"
| "join_with sep (x # y # ys) = x @ sep @ join_with sep (y # ys)"

definition form_body :: "runtime \<Rightarrow> (string \<times> string) list \<Rightarrow> string" where
  "form_body rt kvs = join_with ''&'' (map (\<lambda>kv. formEncode rt (fst kv) @ ''='' @ formEncode rt (snd kv)) kvs)"

definition login_request :: "runtime \<Rightarrow> OSLCClient \<Rightarrow> URL \<Rightarrow> request" where
  "login_request rt this u =
     \<lparr> http_method = ''POST'',
       url = URL_toString (u\<lparr>pathname := j_security_check_path (pathname u)\<rparr>),
       req_headers = [(''Content-Type'', ''application/x-www-form-urlencoded'')],
       req_data = Some (form_body rt [(''j_username'', userid this), (''j_password'', password this)]),
       auth = None,
       maxRedirects = Some 0,
       validateStatus = Only302 \<rparr>"

definition token_request :: "runtime \<Rightarrow> OSLCClient \<Rightarrow> string \<Rightarrow> request" where
  "token_request rt this token_uri =
     \<lparr> http_method = ''POST'',
       url = token_uri,
       req_headers = [(''Content-Type'', ''application/x-www-form-urlencoded''), (''Accept'', ''text/plain'')],
       req_data = Some (form_body rt [(''username'', userid this), (''password'', password this)]),
       auth = None,
       maxRedirects = None,
       validateStatus = BaseConfig \<rparr>"

text \<open>The three branches of the response interceptor that answer a challenge.\<close>

definition jee_forms_auth :: "runtime \<Rightarrow> OSLCClient \<Rightarrow> 'w client \<Rightarrow> response \<Rightarrow> 'w system \<Rightarrow> response promise \<times> 'w system" where
  "jee_forms_auth rt this client response s =
     (let originalRequest = config response
      in catch
           (case newURL rt (url (config response)) of
              None \<Rightarrow> (Rejected (TypeError ''Invalid URL''), s)
            | Some u \<Rightarrow>
                await (client (login_request rt this u)
                         (if isNodeEnvironment rt then s
                          else write_console
                                 (ConsoleWarn ''Form-based authentication in browser requires CORS-enabled backend or proxy'') s))
                  (\<lambda>login s1. client originalRequest s1))
           (\<lambda>error s'. (Rejected error,
                         write_console (ConsoleError ''Error during JEE authentication:'' (Some error)) s')))"

definition jauth_realm_auth :: "runtime \<Rightarrow> OSLCClient \<Rightarrow> 'w client \<Rightarrow> response \<Rightarrow> string \<Rightarrow> 'w system \<Rightarrow> response promise \<times> 'w system" where
  "jauth_realm_auth rt this client response wwwAuthenticate s =
     (let originalRequest = config response
      in case token_uri_match wwwAuthenticate of
           None \<Rightarrow> (Rejected (JsError ''No token_uri found in jauth challenge''), s)
         | Some token_uri \<Rightarrow>
             catch
               (await (client (token_request rt this token_uri) s)
                  (\<lambda>tokenResponse s1.
                     client (originalRequest\<lparr>req_headers :=
                               AList.update ''Authorization'' (''Bearer '' @ data tokenResponse)
                                 (req_headers originalRequest)\<rparr>) s1))
               (\<lambda>error s'. (Rejected error,
                             write_console (ConsoleError ''Error during jauth realm authentication:'' (Some error)) s')))"

definition basic_auth :: "OSLCClient \<Rightarrow> 'w client \<Rightarrow> response \<Rightarrow> 'w system \<Rightarrow> response promise \<times> 'w system" where
  "basic_auth this client response s =
     (let requestWithAuth = (config response)\<lparr>auth := Some (userid this, password this)\<rparr>
      in client requestWithAuth s)"

text \<open>
  The response interceptor. \<open>client\<close> is the instance the interceptor is registered on: a
  request it issues passes through the same pipeline, this interceptor included.
\<close>

definition interceptor :: "runtime \<Rightarrow> OSLCClient \<Rightarrow> 'w client \<Rightarrow> response \<Rightarrow> 'w system \<Rightarrow> response promise \<times> 'w system" where
  "interceptor rt this client response s =
     (let wwwAuthenticate = map_of (headers response) ''www-authenticate''
      in if map_of (headers response) ''x-com-ibm-team-repository-web-auth-msg'' = Some ''authrequired''
         then jee_forms_auth rt this client response s
         else if status response = 401 \<and>
                 (case wwwAuthenticate of None \<Rightarrow> False | Some h \<Rightarrow> str_includes h ''jauth realm'')
         then jauth_realm_auth rt this client response (the wwwAuthenticate) s
         else if status response = 401
         then basic_auth this client response s
         else (Resolved response, s))"

text \<open>
  One request through the instance: dispatch to the network, \<open>validateStatus\<close>, then the
  response interceptor. The first argument bounds how deeply requests issued by the
  interceptor may nest; with none left the call is still pending.
\<close>

primrec client_request :: "nat \<Rightarrow> runtime \<Rightarrow> OSLCClient \<Rightarrow> 'w server \<Rightarrow> request \<Rightarrow> 'w system \<Rightarrow> response promise \<times> 'w system" where
  "client_request 0 rt this srv req s = (Pending, s)"
| "client_request (Suc n) rt this srv req s =
     (let answer = srv req (world s);
          s' = s\<lparr>world := snd answer, sent := sent s @ [req]\<rparr>
      in case fst answer of
           Inl e \<Rightarrow> (Rejected e, s')
         | Inr raw \<Rightarrow>
             (let response = raw\<lparr>config := req\<rparr>
              in if validate (validateStatus req) (status response)
                 then interceptor rt this (client_request n rt this srv) response s'
                 else (Rejected (BadStatus response), s')))"

section \<open>The client: discovery, read, update, query\<close>

definition get_request :: "string \<Rightarrow> (string \<times> string) list \<Rightarrow> request" where
  "get_request u hs =
     \<lparr> http_method = ''GET'', url = u, req_headers = hs, req_data = None, auth = None,
       maxRedirects = None, validateStatus = BaseConfig \<rparr>"

definition put_request :: "string \<Rightarrow> string \<Rightarrow> (string \<times> string) list \<Rightarrow> request" where
  "put_request u body hs =
     \<lparr> http_method = ''PUT'', url = u, req_headers = hs, req_data = Some body, auth = None,
       maxRedirects = None, validateStatus = BaseConfig \<rparr>"

text \<open>What \<open>getResource\<close> returns: a resource over the parsed graph, an XML document or a feed.\<close>

datatype fetched =
    Resource OSLCResource
  | XmlDocument "string option" string string
  | Feed "string option" string

definition getResource :: "runtime \<Rightarrow> 'w client \<Rightarrow> string \<Rightarrow> string \<Rightarrow> string \<Rightarrow> 'w system \<Rightarrow> fetched promise \<times> 'w system" where
  "getResource rt client u oslc_version accept s =
     (let hs = [(''Accept'', accept), (''OSLC-Core-Version'', oslc_version)]
      in await
           (catch (client (get_request u hs) s)
              (\<lambda>error s'. (Rejected error,
                            write_console (ConsoleError ''Error fetching resource:'' (Some error)) s')))
           (\<lambda>response s1.
              let tag = map_of (headers response) ''etag''
              in case map_of (headers response) ''content-type'' of
                   None \<Rightarrow> (Rejected (TypeError ''Cannot read properties of undefined''), s1)
                 | Some contentType \<Rightarrow>
                     if str_includes contentType ''text/xml'' \<or> str_includes contentType ''application/xml''
                     then (Resolved (XmlDocument tag (data response) contentType), s1)
                     else if str_includes contentType ''application/atom+xml''
                     then (Resolved (Feed tag (data response)), s1)
                     else (let parsed = rdfParse rt (data response) u (Some contentType);
                               graph = store_add_all [] (fst parsed);
                               s2 = (case snd parsed of
                                       None \<Rightarrow> s1
                                     | Some err \<Rightarrow> write_console (ConsoleError [] (Some err)) s1)
                           in case OSLCResource_new (newURL rt) (blankNodeId rt) (Some u) (Some graph) tag of
                                Inl e \<Rightarrow> (Rejected e, s2)
                              | Inr r \<Rightarrow> (Resolved (Resource r), s2))))"

text \<open>The catalog predicate of a domain tag; any other tag has none.\<close>

definition serviceProviders :: "string \<Rightarrow> node option" where
  "serviceProviders domain =
     (if domain = ''CM'' then Some (oslc_cm1 ''cmServiceProviders'')
      else if domain = ''RM'' then Some (oslc_rm ''rmServiceProviders'')
      else if domain = ''QM'' then Some (oslc_qm1 ''qmServiceProviders'')
      else None)"

text \<open>
  \<open>resource = await this.getResource(u)\<close> followed by the construction of a discovery
  document from \<open>resource.getURI()\<close>, \<open>resource.store\<close> and \<open>resource.etag\<close>. What is not a
  resource has no \<open>getURI\<close>.
\<close>

definition fetch_document ::
  "((string \<Rightarrow> URL option) \<Rightarrow> string \<Rightarrow> string \<Rightarrow> IndexedFormula \<Rightarrow> string option \<Rightarrow> error + OSLCResource)
     \<Rightarrow> runtime \<Rightarrow> 'w client \<Rightarrow> string \<Rightarrow> 'w system \<Rightarrow> OSLCResource promise \<times> 'w system" where
  "fetch_document construct rt client u s =
     await (getResource rt client u ''2.0'' ''application/rdf+xml'' s)
       (\<lambda>resource s1.
          case resource of
            Resource r \<Rightarrow>
              (case construct (newURL rt) (blankNodeId rt) (getURI r) (store r) (etag r) of
                 Inl e \<Rightarrow> (Rejected e, s1)
               | Inr d \<Rightarrow> (Resolved d, s1))
          | XmlDocument tag xml ct \<Rightarrow> (Rejected (TypeError ''resource.getURI is not a function''), s1)
          | Feed tag feed \<Rightarrow> (Rejected (TypeError ''resource.getURI is not a function''), s1))"

definition settle :: "'a promise \<times> 's \<Rightarrow> OSLCClient \<Rightarrow> ('a \<Rightarrow> 's \<Rightarrow> unit promise \<times> OSLCClient \<times> 's)
     \<Rightarrow> unit promise \<times> OSLCClient \<times> 's" where
  "settle m this f =
     (case fst m of
        Resolved x \<Rightarrow> f x (snd m)
      | Rejected e \<Rightarrow> (Rejected e, this, snd m)
      | Pending \<Rightarrow> (Pending, this, snd m))"

definition use :: "runtime \<Rightarrow> 'w client \<Rightarrow> OSLCClient \<Rightarrow> string \<Rightarrow> string \<Rightarrow> string \<Rightarrow> 'w system
     \<Rightarrow> unit promise \<times> OSLCClient \<times> 'w system" where
  "use rt client this server_url serviceProviderName domain s =
     (let base = (if suffix ''/'' server_url then butlast server_url else server_url);
          this1 = this\<lparr>base_url := Some base\<rparr>
      in settle
           (catch (fetch_document RootServices_new rt client (base @ ''/rootservices'') s)
              (\<lambda>error s'. (Rejected (JsError ''Failed to fetch rootservices document''),
                            write_console (ConsoleError ''Error fetching rootservices:'' (Some error)) s')))
           this1
           (\<lambda>rs s1.
              let this2 = this1\<lparr>rootservices := Some rs\<rparr>
              in case serviceProviderCatalog rs (serviceProviders domain) of
                   None \<Rightarrow> (Rejected (JsError (''No ServiceProviderCatalog for '' @ domain @ '' services'')), this2, s1)
                 | Some spcURL \<Rightarrow>
                     if spcURL = []
                     then (Rejected (JsError (''No ServiceProviderCatalog for '' @ domain @ '' services'')), this2, s1)
                     else settle
                            (catch (fetch_document ServiceProviderCatalog_new rt client spcURL s1)
                               (\<lambda>error s'. (Rejected error,
                                             write_console (ConsoleError ''Error fetching ServiceProviderCatalog:'' (Some error)) s')))
                            this2
                            (\<lambda>catalog s2.
                               let this3 = this2\<lparr>spc := Some catalog\<rparr>
                               in case serviceProvider catalog serviceProviderName of
                                    None \<Rightarrow> (Rejected (JsError (serviceProviderName @ '' not found in service catalog'')), this3, s2)
                                  | Some spURL \<Rightarrow>
                                      if spURL = []
                                      then (Rejected (JsError (serviceProviderName @ '' not found in service catalog'')), this3, s2)
                                      else settle (fetch_document ServiceProvider_new rt client spURL s2) this3
                                             (\<lambda>provider s3. (Resolved (), this3\<lparr>sp := Some provider\<rparr>, s3)))))"

text \<open>A template literal renders a status as its decimal digits.\<close>

fun show_nat :: "nat \<Rightarrow> string" where
  "show_nat n = (if n < 10 then [''0123456789'' ! n] else show_nat (n div 10) @ [''0123456789'' ! (n mod 10)])"

declare show_nat.simps [simp del]

text \<open>
  The number a string of decimal digits stands for, if it is one: what a reader of the
  message takes the printed status to be.
\<close>

definition read_decimal :: "string \<Rightarrow> nat option" where
  "read_decimal ds =
     (if ds \<noteq> [] \<and> list_all (\<lambda>c. c \<in> set ''0123456789'') ds
      then Some (foldl (\<lambda>a c. 10 * a + (of_char c - 48)) 0 ds)
      else None)"

text \<open>
  \<open>putResource\<close>. A resource always has a store here, so the guard against a missing one
  has no branch. The headers given to \<open>put\<close> are the ones below; the instance defaults that
  the transport merges in contain no \<open>If-Match\<close>.
\<close>

definition put_headers :: "string \<Rightarrow> string option \<Rightarrow> (string \<times> string) list" where
  "put_headers oslc_version eTag =
     [(''OSLC-Core-Version'', oslc_version),
      (''Content-Type'', ''application/rdf+xml; charset=utf-8''),
      (''Accept'', ''application/rdf+xml'')]
     @ (case eTag of None \<Rightarrow> [] | Some t \<Rightarrow> if t = [] then [] else [(''If-Match'', t)])"

definition putResource :: "runtime \<Rightarrow> 'w client \<Rightarrow> OSLCResource \<Rightarrow> string option \<Rightarrow> string \<Rightarrow> 'w system
     \<Rightarrow> OSLCResource promise \<times> 'w system" where
  "putResource rt client resource eTag oslc_version s =
     (let graph = store resource;
          u = getURI resource;
          hs = put_headers oslc_version eTag;
          body = serialize rt graph
      in await (client (put_request u body hs) s)
           (\<lambda>response s1.
              if status response \<noteq> 200 \<and> status response \<noteq> 201
              then (Rejected (JsError (''Failed to update resource '' @ u @ ''. Status: ''
                                        @ show_nat (status response) @ [CHR 0x0A] @ data response)), s1)
              else (Resolved resource, s1)))"

record QueryParams =
  q_prefix :: "string option"
  q_select :: "string option"
  q_where :: "string option"
  q_orderBy :: "string option"

definition truthy :: "string option \<Rightarrow> bool" where
  "truthy x = (x \<noteq> None \<and> x \<noteq> Some [])"

definition query_params :: "QueryParams option \<Rightarrow> (string \<times> string) list" where
  "query_params query =
     (case query of
        None \<Rightarrow> []
      | Some q \<Rightarrow>
          (if truthy (q_prefix q) then [(''oslc.prefix'', the (q_prefix q))] else [])
          @ (if truthy (q_select q) then [(''oslc.select'', the (q_select q))] else [])
          @ (if truthy (q_where q) then [(''oslc.where'', the (q_where q))] else [])
          @ (if truthy (q_orderBy q) then [(''oslc.orderBy'', the (q_orderBy q))] else []))
     @ [(''oslc.paging'', ''false'')]"

definition query_headers :: "(string \<times> string) list" where
  "query_headers = [(''OSLC-Core-Version'', ''2.0''), (''Accept'', ''application/rdf+xml''),
                    (''X-Jazz-CSRF-Prevent'', ''1'')]"

text \<open>\<open>store.any(sym(u), oslc("nextPage"), null)?.value\<close>\<close>

definition nextPage_of :: "IndexedFormula \<Rightarrow> string \<Rightarrow> string option" where
  "nextPage_of kb u =
     (case store_any kb (NamedNode u) (Some (oslc ''nextPage'')) of
        None \<Rightarrow> None
      | Some n \<Rightarrow> Some (node_value n))"

text \<open>Parsing a body into the store; a failure of the parser is caught and logged.\<close>

definition parse_into :: "runtime \<Rightarrow> string \<Rightarrow> string \<Rightarrow> string option \<Rightarrow> IndexedFormula \<Rightarrow> 'w system
     \<Rightarrow> IndexedFormula \<times> 'w system" where
  "parse_into rt body base contentType kb s =
     (let parsed = rdfParse rt body base contentType
      in (store_add_all kb (fst parsed),
          (case snd parsed of
             None \<Rightarrow> s
           | Some err \<Rightarrow> write_console (ConsoleError [] (Some err)) s)))"

text \<open>
  The paging loop of \<open>queryWithBase\<close>. The first argument bounds the number of further pages
  fetched; when it is used up and a next page is still named, the query is still pending.
\<close>

fun nextPage_loop :: "nat \<Rightarrow> runtime \<Rightarrow> 'w client \<Rightarrow> string \<Rightarrow> string option \<Rightarrow> IndexedFormula \<Rightarrow> string option
     \<Rightarrow> 'w system \<Rightarrow> IndexedFormula promise \<times> 'w system" where
  "nextPage_loop 0 rt client u contentType kb nextPage s =
     (if truthy nextPage then (Pending, s) else (Resolved kb, s))"
| "nextPage_loop (Suc n) rt client u contentType kb nextPage s =
     (if truthy nextPage
      then await (client (get_request (the nextPage) query_headers) s)
             (\<lambda>response s1.
                let parsed = parse_into rt (data response) u contentType kb s1
                in nextPage_loop n rt client u contentType (fst parsed)
                     (nextPage_of (fst parsed) (the nextPage)) (snd parsed))
      else (Resolved kb, s))"

definition query_url :: "runtime \<Rightarrow> string \<Rightarrow> QueryParams option \<Rightarrow> string" where
  "query_url rt queryBase query = queryBase @ ''?'' @ form_body rt (query_params query)"

definition queryWithBase :: "nat \<Rightarrow> runtime \<Rightarrow> 'w client \<Rightarrow> string \<Rightarrow> QueryParams option \<Rightarrow> 'w system
     \<Rightarrow> IndexedFormula promise \<times> 'w system" where
  "queryWithBase n rt client queryBase query s =
     (let u = query_url rt queryBase query
      in await (client (get_request u query_headers) s)
           (\<lambda>response s1.
              if status response \<noteq> 200
              then (Rejected (JsError (''Failed to query resource. Status: '' @ show_nat (status response)
                                        @ [CHR 0x0A] @ data response)), s1)
              else (let contentType = map_of (headers response) ''content-type'';
                        parsed = parse_into rt (data response) u contentType [] s1
                    in nextPage_loop n rt client u contentType (fst parsed)
                         (nextPage_of (fst parsed) queryBase) (snd parsed))))"

text \<open>
  A result in pages. The pages still to come are given by their URLs and responses. They are
  linked when the next-page link found in the store for the page just read names the first
  of them, and so on, and no link is found for the last one. \<open>accumulated\<close> is the store
  after all of them have been parsed into it, \<open>logged\<close> the console entries of the parser
  failures among them.
\<close>

fun linked :: "runtime \<Rightarrow> string \<Rightarrow> string option \<Rightarrow> IndexedFormula \<Rightarrow> string option
     \<Rightarrow> (string \<times> response) list \<Rightarrow> bool" where
  "linked rt base contentType kb nextPage [] = (\<not> truthy nextPage)"
| "linked rt base contentType kb nextPage (page # pages) =
     (nextPage = Some (fst page) \<and> fst page \<noteq> [] \<and>
      linked rt base contentType
        (store_add_all kb (fst (rdfParse rt (data (snd page)) base contentType)))
        (nextPage_of (store_add_all kb (fst (rdfParse rt (data (snd page)) base contentType))) (fst page))
        pages)"

fun accumulated :: "runtime \<Rightarrow> string \<Rightarrow> string option \<Rightarrow> IndexedFormula \<Rightarrow> (string \<times> response) list
     \<Rightarrow> IndexedFormula" where
  "accumulated rt base contentType kb [] = kb"
| "accumulated rt base contentType kb (page # pages) =
     accumulated rt base contentType
       (store_add_all kb (fst (rdfParse rt (data (snd page)) base contentType))) pages"

fun logged :: "runtime \<Rightarrow> string \<Rightarrow> string option \<Rightarrow> (string \<times> response) list \<Rightarrow> log_entry list" where
  "logged rt base contentType [] = []"
| "logged rt base contentType (page # pages) =
     (case snd (rdfParse rt (data (snd page)) base contentType) of
        None \<Rightarrow> []
      | Some err \<Rightarrow> [ConsoleError [] (Some err)])
     @ logged rt base contentType pages"

text \<open>A server that answers each URL with a fixed response, and a response that is no challenge.\<close>

definition site_server :: "(string \<Rightarrow> response option) \<Rightarrow> 'w server" where
  "site_server site req w =
     (case site (url req) of
        None \<Rightarrow> (Inl (NetworkError ''unreachable''), w)
      | Some r \<Rightarrow> (Inr r, w))"

definition unchallenged :: "response \<Rightarrow> bool" where
  "unchallenged r =
     (map_of (headers r) ''x-com-ibm-team-repository-web-auth-msg'' \<noteq> Some ''authrequired'' \<and>
      status r < 400)"

fun served :: "(string \<Rightarrow> response option) \<Rightarrow> (string \<times> response) list \<Rightarrow> bool" where
  "served site [] = True"
| "served site (page # pages) =
     (site (fst page) = Some (snd page) \<and> unchallenged (snd page) \<and> served site pages)"

section \<open>Fixtures\<close>

text \<open>A server that answers every request with a bare 401, as one does to wrong credentials.\<close>

definition always_unauthorized :: "'w server" where
  "always_unauthorized req w = (Inr \<lparr> status = 401, headers = [], data = [], config = req \<rparr>, w)"

definition fixture_client :: OSLCClient where
  "fixture_client =
     \<lparr> userid = ''bob'', password = ''pw'', configuration_context = None, rootservices = None,
       spc = None, sp = None, base_url = None \<rparr>"

definition initial :: "unit system" where
  "initial = \<lparr> world = (), sent = [], console = [] \<rparr>"

definition challenged :: response where
  "challenged =
     \<lparr> status = 401,
       headers = [(''x-com-ibm-team-repository-web-auth-msg'', ''authrequired''),
                  (''www-authenticate'', ''jauth realm'')],
       data = [], config = get_request [] [] \<rparr>"

definition plain :: response where
  "plain = \<lparr> status = 200, headers = [], data = ''ok'', config = get_request [] [] \<rparr>"

text \<open>
  A server that challenges every request for a form login until the credentials have been
  posted, answers the POST with a redirect, and serves every request after that.
\<close>

definition login_server :: "bool server" where
  "login_server req logged_in =
     (if http_method req = ''POST''
      then (Inr \<lparr> status = 302, headers = [], data = [], config = req \<rparr>, True)
      else if logged_in then (Inr plain, True)
      else (Inr challenged, False))"

text \<open>
  A server \<open>https://srv\<close> with a root services document, a catalog and a query result in
  three pages, the third of which breaks off; the graph parser maps each body to the
  statements it adds and the error it throws.
\<close>

definition fixture_newURL :: "string \<Rightarrow> URL option" where
  "fixture_newURL u =
     (if prefix ''https://srv/'' u
      then Some \<lparr> origin = ''https://srv'',
                  pathname = takeWhile (\<lambda>c. c \<noteq> CHR ''?'') (drop 11 u),
                  search = dropWhile (\<lambda>c. c \<noteq> CHR ''?'') (drop 11 u),
                  hash = [] \<rparr>
      else None)"

definition fixture_parse :: "string \<Rightarrow> string \<Rightarrow> string option \<Rightarrow> statement list \<times> error option" where
  "fixture_parse body base contentType =
     (if body = ''page 1''
      then ([Statement (NamedNode ''https://srv/q'') (oslc ''nextPage'') (NamedNode ''https://srv/q?page=2'') (NamedNode base),
             Statement (NamedNode ''https://srv/q'') (rdfs ''member'') (NamedNode ''https://srv/wi/1'') (NamedNode base)],
            None)
      else if body = ''page 2''
      then ([Statement (NamedNode ''https://srv/q?page=2'') (oslc ''nextPage'') (NamedNode ''https://srv/q?page=3'') (NamedNode base),
             Statement (NamedNode ''https://srv/q'') (rdfs ''member'') (NamedNode ''https://srv/wi/2'') (NamedNode base)],
            None)
      else if body = ''page 3''
      then ([Statement (NamedNode ''https://srv/q'') (rdfs ''member'') (NamedNode ''https://srv/wi/3'') (NamedNode base)],
            Some (JsError ''unexpected end of input''))
      else if body = ''rootservices''
      then ([Statement (NamedNode ''https://srv/ccm/rootservices'') (oslc_cm1 ''cmServiceProviders'')
               (NamedNode ''https://srv/ccm/catalog'') (NamedNode base)],
            None)
      else if body = ''catalog''
      then ([Statement (NamedNode ''https://srv/ccm/sp/1'') (dcterms ''title'')
               (Literal ''Alpha Project'' [] XMLLiteral) (NamedNode base)],
            None)
      else ([], Some (JsError ''not well-formed'')))"

definition rdf_response :: "string \<Rightarrow> response" where
  "rdf_response body =
     \<lparr> status = 200, headers = [(''content-type'', ''application/rdf+xml'')], data = body,
       config = get_request [] [] \<rparr>"

definition fixture_site :: "string \<Rightarrow> response option" where
  "fixture_site u =
     (if u = ''https://srv/q?oslc.paging=false'' then Some (rdf_response ''page 1'')
      else if u = ''https://srv/q?page=2'' then Some (rdf_response ''page 2'')
      else if u = ''https://srv/q?page=3'' then Some (rdf_response ''page 3'')
      else if u = ''https://srv/ccm/rootservices'' then Some (rdf_response ''rootservices'')
      else if u = ''https://srv/ccm/catalog'' then Some (rdf_response ''catalog'')
      else None)"

definition fixture_runtime :: runtime where
  "fixture_runtime =
     \<lparr> newURL = fixture_newURL, blankNodeId = ''n0'', formEncode = (\<lambda>v. v),
       rdfParse = fixture_parse, serialize = (\<lambda>kb. ''<rdf:RDF/>''),
       isNodeEnvironment = True \<rparr>"

definition work_item :: OSLCResource where
  "work_item =
     \<lparr> uri = NamedNode ''https://srv/ccm/wi/7'',
       store = [Statement (NamedNode ''https://srv/ccm/wi/7'') (dcterms ''title'')
                  (Literal ''Bug 1'' [] ''http://www.w3.org/2001/XMLSchema#string'') DefaultGraph],
       etag = Some ''e1'', queryURI = Some ''https://srv/ccm/wi/7'' \<rparr>"

definition stale :: response where
  "stale = \<lparr> status = 412, headers = [], data = ''Precondition Failed'', config = get_request [] [] \<rparr>"

text \<open>A success status in the sense of HTTP: the class 2xx.\<close>

definition success_status :: "nat \<Rightarrow> bool" where
  "success_status st = (200 \<le> st \<and> st < 300)"

text \<open>The answer of a server that has stored the update and has nothing to send back.\<close>

definition no_content :: response where
  "no_content = \<lparr> status = 204, headers = [], data = [], config = get_request [] [] \<rparr>"

text \<open>
  A service provider with two creation factories of the same resource type; the store holds
  the resource-type statement of the first one twice, in two graphs.
\<close>

definition provider :: OSLCResource where
  "provider =
     \<lparr> uri = NamedNode ''https://srv/ccm/sp/1'',
       store =
         [Statement (NamedNode ''https://srv/ccm/sp/1'') (oslc ''service'') (BlankNode ''s1'') (NamedNode ''g1''),
          Statement (BlankNode ''s1'') (oslc ''creationFactory'') (BlankNode ''cf1'') (NamedNode ''g1''),
          Statement (BlankNode ''s1'') (oslc ''creationFactory'') (BlankNode ''cf2'') (NamedNode ''g1''),
          Statement (BlankNode ''cf1'') (oslc ''resourceType'') (NamedNode ''http://open-services.net/ns/cm#ChangeRequest'') (NamedNode ''g1''),
          Statement (BlankNode ''cf1'') (oslc ''resourceType'') (NamedNode ''http://open-services.net/ns/cm#ChangeRequest'') (NamedNode ''g2''),
          Statement (BlankNode ''cf1'') (oslc ''creation'') (NamedNode ''https://srv/ccm/create/1'') (NamedNode ''g1''),
          Statement (BlankNode ''cf2'') (oslc ''resourceType'') (NamedNode ''http://open-services.net/ns/cm#ChangeRequest'') (NamedNode ''g1''),
          Statement (BlankNode ''cf2'') (oslc ''creation'') (NamedNode ''https://srv/ccm/create/2'') (NamedNode ''g1'')],
       etag = None, queryURI = Some ''https://srv/ccm/sp/1'' \<rparr>"

text \<open>
  Two query results in three pages each, on the same server. In the first (query base
  \<open>https://srv/r\<close>) every page names the next one in a statement about its own URL, the URL
  it was fetched from; in the second (query base \<open>https://srv/b\<close>) every page names the next
  one in a statement about the query base. No page fails to parse.
\<close>

definition paged_parse :: "string \<Rightarrow> string \<Rightarrow> string option \<Rightarrow> statement list \<times> error option" where
  "paged_parse body base contentType =
     (if body = ''own 1''
      then ([Statement (NamedNode ''https://srv/r?oslc.paging=false'') (oslc ''nextPage'') (NamedNode ''https://srv/r?page=2'') (NamedNode base),
             Statement (NamedNode ''https://srv/r'') (rdfs ''member'') (NamedNode ''https://srv/wi/1'') (NamedNode base)],
            None)
      else if body = ''own 2''
      then ([Statement (NamedNode ''https://srv/r?page=2'') (oslc ''nextPage'') (NamedNode ''https://srv/r?page=3'') (NamedNode base),
             Statement (NamedNode ''https://srv/r'') (rdfs ''member'') (NamedNode ''https://srv/wi/2'') (NamedNode base)],
            None)
      else if body = ''own 3''
      then ([Statement (NamedNode ''https://srv/r'') (rdfs ''member'') (NamedNode ''https://srv/wi/3'') (NamedNode base)],
            None)
      else if body = ''base 1''
      then ([Statement (NamedNode ''https://srv/b'') (oslc ''nextPage'') (NamedNode ''https://srv/b?page=2'') (NamedNode base),
             Statement (NamedNode ''https://srv/b'') (rdfs ''member'') (NamedNode ''https://srv/wi/1'') (NamedNode base)],
            None)
      else if body = ''base 2''
      then ([Statement (NamedNode ''https://srv/b'') (oslc ''nextPage'') (NamedNode ''https://srv/b?page=3'') (NamedNode base),
             Statement (NamedNode ''https://srv/b'') (rdfs ''member'') (NamedNode ''https://srv/wi/2'') (NamedNode base)],
            None)
      else if body = ''base 3''
      then ([Statement (NamedNode ''https://srv/b'') (rdfs ''member'') (NamedNode ''https://srv/wi/3'') (NamedNode base)],
            None)
      else ([], Some (JsError ''not well-formed'')))"

definition paged_site :: "string \<Rightarrow> response option" where
  "paged_site u =
     (if u = ''https://srv/r?oslc.paging=false'' then Some (rdf_response ''own 1'')
      else if u = ''https://srv/r?page=2'' then Some (rdf_response ''own 2'')
      else if u = ''https://srv/r?page=3'' then Some (rdf_response ''own 3'')
      else if u = ''https://srv/b?oslc.paging=false'' then Some (rdf_response ''base 1'')
      else if u = ''https://srv/b?page=2'' then Some (rdf_response ''base 2'')
      else if u = ''https://srv/b?page=3'' then Some (rdf_response ''base 3'')
      else None)"

definition paged_runtime :: runtime where
  "paged_runtime =
     \<lparr> newURL = fixture_newURL, blankNodeId = ''n0'', formEncode = (\<lambda>v. v),
       rdfParse = paged_parse, serialize = (\<lambda>kb. ''<rdf:RDF/>''),
       isNodeEnvironment = True \<rparr>"

text \<open>
  The lookup as the specification words it: the subject of the first statement whose
  predicate is \<open>dcterms:title\<close> and whose object is a literal with exactly the given string
  as its value, whatever the datatype or the language of the literal.
\<close>

definition serviceProvider_spec :: "OSLCResource \<Rightarrow> string \<Rightarrow> string option" where
  "serviceProvider_spec r serviceProviderTitle =
     (case find (\<lambda>st. predicate st = dcterms ''title'' \<and>
                      (case object st of Literal v lang dt \<Rightarrow> v = serviceProviderTitle | _ \<Rightarrow> False))
             (store r) of
        None \<Rightarrow> None
      | Some st \<Rightarrow> Some (node_value (subject st)))"

text \<open>
  A catalog whose titles are plain text: the title of the first provider is a plain literal,
  the title of the second a literal with a language tag.
\<close>

definition plain_catalog :: OSLCResource where
  "plain_catalog =
     \<lparr> uri = NamedNode ''https://srv/ccm/catalog'',
       store =
         [Statement (NamedNode ''https://srv/ccm/sp/1'') (dcterms ''title'')
            (Literal ''Alpha Project'' [] ''http://www.w3.org/2001/XMLSchema#string'')
            (NamedNode ''https://srv/ccm/catalog''),
          Statement (NamedNode ''https://srv/ccm/sp/2'') (dcterms ''title'')
            (Literal ''Beta Project'' ''en'' ''http://www.w3.org/1999/02/22-rdf-syntax-ns#langString'')
            (NamedNode ''https://srv/ccm/catalog'')],
       etag = None, queryURI = Some ''https://srv/ccm/catalog'' \<rparr>"

section \<open>Round trip of set and get\<close>

lemma store_remove_filter_gen:
  "\<forall>y \<in> set ys. \<not> P y \<Longrightarrow>
   store_remove (filter P xs) (ys @ xs) = Inr (ys @ filter (\<lambda>x. \<not> P x) xs)"
proof (induction xs arbitrary: ys)
  case Nil
  then show ?case by simp
next
  case (Cons x xs)
  show ?case
  proof (cases "P x")
    case True
    with Cons.prems have "x \<notin> set ys" by auto
    then have "remove1 x (ys @ x # xs) = ys @ xs"
      by (simp add: remove1_append)
    with True Cons.IH [OF Cons.prems] show ?thesis by simp
  next
    case False
    with Cons.prems have "\<forall>y \<in> set (ys @ [x]). \<not> P y" by simp
    from Cons.IH [OF this] False show ?thesis by simp
  qed
qed

lemma store_remove_matching:
  "store_remove (statementsMatching kb s p ob g) kb = Inr (filter (\<lambda>st. \<not> matching s p ob g st) kb)"
  using store_remove_filter_gen [of "[]" "matching s p ob g" kb]
  by (simp add: statementsMatching_def)

lemma foldl_store_add:
  assumes "\<forall>st \<in> set kb. \<not> matching (Some s) (Some p) None None st"
  shows "foldl (\<lambda>g x. store_add g s p x) (kb @ map (\<lambda>x. Statement s p x DefaultGraph) acc) vs =
         kb @ map (\<lambda>x. Statement s p x DefaultGraph) (acc @ first_occurrences acc vs)"
proof (induction vs arbitrary: acc)
  case Nil
  then show ?case by simp
next
  case (Cons v vs)
  have notin: "Statement s p v DefaultGraph \<notin> set kb"
    using assms by (auto simp: matching_def wild_def)
  have mem: "Statement s p v DefaultGraph \<in> set (kb @ map (\<lambda>x. Statement s p x DefaultGraph) acc) \<longleftrightarrow> v \<in> set acc"
    using notin by auto
  show ?case
  proof (cases "v \<in> set acc")
    case True
    with mem Cons.IH [of acc] show ?thesis by (simp add: store_add_def)
  next
    case False
    with mem Cons.IH [of "acc @ [v]"] show ?thesis by (simp add: store_add_def)
  qed
qed

lemma matching_new_statements:
  "filter (matching (Some s) (Some p) None None) (map (\<lambda>x. Statement s p x DefaultGraph) xs) =
   map (\<lambda>x. Statement s p x DefaultGraph) xs"
  by (induction xs) (simp_all add: matching_def wild_def)

lemma OSLCResource_set_store:
  "OSLCResource_set r pr v =
     Inr (r\<lparr>store := filter (\<lambda>st. \<not> matching (Some (uri r)) (Some (property_sym pr)) None None st) (store r)
                 @ map (\<lambda>x. Statement (uri r) (property_sym pr) x DefaultGraph) (values_of (stored_values v))\<rparr>)"
proof -
  let ?kb = "filter (\<lambda>st. \<not> matching (Some (uri r)) (Some (property_sym pr)) None None st) (store r)"
  have clean: "\<forall>st \<in> set ?kb. \<not> matching (Some (uri r)) (Some (property_sym pr)) None None st"
    by auto
  show ?thesis
  proof (cases v)
    case Absent
    then show ?thesis by (simp add: OSLCResource_set_def store_remove_matching Let_def)
  next
    case (One x)
    have "matching (Some (uri r)) (Some (property_sym pr)) None None
            (Statement (uri r) (property_sym pr) x DefaultGraph)"
      by (simp add: matching_def wild_def)
    with One show ?thesis
      by (simp add: OSLCResource_set_def store_remove_matching store_add_def Let_def)
  next
    case (Many vs)
    with foldl_store_add [OF clean, of "[]" vs] show ?thesis
      by (simp add: OSLCResource_set_def store_remove_matching Let_def)
  qed
qed

lemma get_of_values:
  assumes "store r' = kb @ map (\<lambda>x. Statement (uri r') (property_sym pr) x DefaultGraph) xs"
    and "\<forall>st \<in> set kb. \<not> matching (Some (uri r')) (Some (property_sym pr)) None None st"
  shows "OSLCResource_get r' pr = round_trip (Many xs)"
proof -
  have "filter (matching (Some (uri r')) (Some (property_sym pr)) None None) kb = []"
    using assms(2) by (simp add: filter_empty_conv)
  then have each: "store_each (store r') (uri r') (property_sym pr) = xs"
    by (simp add: store_each_def statementsMatching_def assms(1) matching_new_statements comp_def)
  show ?thesis
  proof (cases xs)
    case Nil
    with each show ?thesis by (simp add: OSLCResource_get_def)
  next
    case (Cons a as)
    with each show ?thesis by (cases as) (simp_all add: OSLCResource_get_def)
  qed
qed

lemma round_trip_stored: "round_trip (Many (values_of (stored_values v))) = round_trip (stored_values v)"
  by (cases v) simp_all

text \<open>
  C1 (as amended). Whatever the store held, \<open>set\<close> succeeds; it leaves no earlier value of
  the property for the subject, leaves every other statement alone, and files the new values
  in order, a value repeated in the array only once (the store ignores a statement it already
  holds). \<open>get\<close> then returns those values: nothing for an absent or empty value, the string
  of a single value, the ordered strings otherwise.
\<close>

theorem set_get_round_trip:
  "set_then_get r pr v = Inr (round_trip (stored_values v)) \<and>
   (case OSLCResource_set r pr v of
      Inl e \<Rightarrow> False
    | Inr r' \<Rightarrow>
        uri r' = uri r \<and>
        statementsMatching (store r') (Some (uri r)) (Some (property_sym pr)) None None =
          map (\<lambda>x. Statement (uri r) (property_sym pr) x DefaultGraph) (values_of (stored_values v)) \<and>
        filter (\<lambda>st. \<not> matching (Some (uri r)) (Some (property_sym pr)) None None st) (store r') =
          filter (\<lambda>st. \<not> matching (Some (uri r)) (Some (property_sym pr)) None None st) (store r))"
proof -
  let ?m = "matching (Some (uri r)) (Some (property_sym pr)) None None"
  let ?kb = "filter (\<lambda>st. \<not> ?m st) (store r)"
  let ?new = "map (\<lambda>x. Statement (uri r) (property_sym pr) x DefaultGraph) (values_of (stored_values v))"
  let ?r' = "r\<lparr>store := ?kb @ ?new\<rparr>"
  have set_eq: "OSLCResource_set r pr v = Inr ?r'"
    by (rule OSLCResource_set_store)
  have "OSLCResource_get ?r' pr = round_trip (Many (values_of (stored_values v)))"
    by (rule get_of_values) auto
  then have get_eq: "set_then_get r pr v = Inr (round_trip (stored_values v))"
    by (simp add: set_then_get_def set_eq round_trip_stored)
  have old: "filter ?m ?kb = []"
    by (simp add: filter_empty_conv)
  have new: "filter ?m ?new = ?new"
    by (rule matching_new_statements)
  have new_out: "filter (\<lambda>st. \<not> ?m st) ?new = []"
    by (simp add: filter_empty_conv matching_def wild_def)
  show ?thesis
    using get_eq old new new_out by (simp add: set_eq statementsMatching_def)
qed

text \<open>
  C1 as stated fails on an array that repeats a node: the store keeps one statement, and
  \<open>get\<close> returns the single string, not the list of two.
\<close>

theorem set_get_round_trip_counterexample:
  "set_then_get \<lparr> uri = NamedNode ''https://srv/ccm/resource/1'', store = [], etag = None, queryURI = None \<rparr>
     (PropertyURI ''http://purl.org/dc/terms/subject'')
     (Many [Literal ''a'' [] ''http://www.w3.org/2001/XMLSchema#string'',
            Literal ''a'' [] ''http://www.w3.org/2001/XMLSchema#string''])
   = Inr (Str ''a'') \<and>
   round_trip (Many [Literal ''a'' [] ''http://www.w3.org/2001/XMLSchema#string'',
                     Literal ''a'' [] ''http://www.w3.org/2001/XMLSchema#string''])
   = Arr [''a'', ''a'']"
  by (simp add: set_then_get_def OSLCResource_set_def OSLCResource_get_def statementsMatching_def
      store_each_def store_add_def matching_def wild_def)

section \<open>The canonical URI of a resource\<close>

lemma after_set_uri:
  "uri (snd (after_set r (OSLCResource_set r p v))) = uri r \<and>
   queryURI (snd (after_set r (OSLCResource_set r p v))) = queryURI r"
  by (simp add: after_set_def OSLCResource_set_store)

lemma call_uri: "uri (snd (call c r)) = uri r \<and> queryURI (snd (call c r)) = queryURI r"
  by (cases c) (simp_all add: after_set_uri setTitle_def setDescription_def)

lemma calls_uri: "uri (calls cs r) = uri r \<and> queryURI (calls cs r) = queryURI r"
  by (induction cs arbitrary: r) (simp_all add: call_uri)

text \<open>
  C9. A resource constructed from a URL \<open>u\<close> that the platform parses has the named node of
  \<open>u\<close>'s origin followed by its path as its URI (the query string and the fragment are not
  part of it) and keeps \<open>u\<close> as its query URI; after any sequence of method calls both are
  still the same.
\<close>

theorem canonical_uri_fixed:
  assumes "u \<noteq> []" and "parseURL u = Some p"
  shows "\<exists>r. OSLCResource_new parseURL bnode (Some u) kb tag = Inr r \<and>
             uri r = NamedNode (origin p @ pathname p) \<and>
             queryURI r = Some u \<and>
             (\<forall>cs. uri (calls cs r) = NamedNode (origin p @ pathname p) \<and>
                   queryURI (calls cs r) = Some u \<and>
                   getURI (calls cs r) = origin p @ pathname p)"
  using assms by (simp add: OSLCResource_new_def calls_uri getURI_def)

theorem canonical_uri_fixed_witness:
  "OSLCResource_new
     (\<lambda>s. if s = ''https://srv/ccm/wi/7?oslc.properties=dcterms:title''
          then Some \<lparr> origin = ''https://srv'', pathname = ''/ccm/wi/7'',
                      search = ''?oslc.properties=dcterms:title'', hash = [] \<rparr>
          else None)
     ''n0'' (Some ''https://srv/ccm/wi/7?oslc.properties=dcterms:title'') None (Some ''e1'')
   = Inr \<lparr> uri = NamedNode ''https://srv/ccm/wi/7'', store = [], etag = Some ''e1'',
           queryURI = Some ''https://srv/ccm/wi/7?oslc.properties=dcterms:title'' \<rparr> \<and>
   uri (calls [Call_setTitle ''Bug 1'', Call_get (PropertyURI ''http://purl.org/dc/terms/title''),
               Call_set (PropertyURI ''http://purl.org/dc/terms/title'') Absent, Call_getProperties]
          \<lparr> uri = NamedNode ''https://srv/ccm/wi/7'', store = [], etag = Some ''e1'',
            queryURI = Some ''https://srv/ccm/wi/7?oslc.properties=dcterms:title'' \<rparr>)
   = NamedNode ''https://srv/ccm/wi/7''"
proof -
  let ?u = "''https://srv/ccm/wi/7?oslc.properties=dcterms:title''"
  let ?p = "\<lparr> origin = ''https://srv'', pathname = ''/ccm/wi/7'',
              search = ''?oslc.properties=dcterms:title'', hash = [] \<rparr>"
  let ?parse = "\<lambda>s. if s = ?u then Some ?p else None"
  let ?r0 = "\<lparr> uri = NamedNode ''https://srv/ccm/wi/7'', store = [], etag = Some ''e1'',
               queryURI = Some ?u \<rparr>"
  let ?cs = "[Call_setTitle ''Bug 1'', Call_get (PropertyURI ''http://purl.org/dc/terms/title''),
              Call_set (PropertyURI ''http://purl.org/dc/terms/title'') Absent, Call_getProperties]"
  have nonempty: "?u \<noteq> []" by simp
  have parsed: "?parse ?u = Some ?p" by simp
  have new: "OSLCResource_new ?parse ''n0'' (Some ?u) None (Some ''e1'') = Inr ?r0"
    by (simp add: OSLCResource_new_def)
  from canonical_uri_fixed [of ?u ?parse ?p "''n0''" None "Some ''e1''", OF nonempty parsed]
  obtain r where r: "OSLCResource_new ?parse ''n0'' (Some ?u) None (Some ''e1'') = Inr r"
    and fixed: "\<forall>cs. uri (calls cs r) = NamedNode (origin ?p @ pathname ?p)"
    by blast
  from r new have "r = ?r0" by simp
  with fixed have "uri (calls ?cs ?r0) = NamedNode (origin ?p @ pathname ?p)" by blast
  then have "uri (calls ?cs ?r0) = NamedNode ''https://srv/ccm/wi/7''"
    by (simp del: calls.simps)
  with new show ?thesis by (rule conjI)
qed

section \<open>Creation factory lookup\<close>

lemma types_loop_eq:
  "types_loop kb cf s ts =
     (if list_ex (\<lambda>aType. suffix s (node_value aType)) ts then Some (creation_of kb cf) else None)"
  by (induction ts) (simp_all add: creation_of_def)

lemma count_matching:
  "statementsMatching kb (Some cf) (Some p) (Some n) None =
   filter (\<lambda>st. subject st = cf \<and> predicate st = p \<and> object st = n) kb"
  by (auto simp: statementsMatching_def matching_def wild_def intro!: filter_cong)

lemma creationFactories_loop_eq:
  "creationFactories_loop kb rt cfs =
     (case find (of_type kb rt) cfs of None \<Rightarrow> None | Some cf \<Rightarrow> Some (creation_of kb cf))"
proof (induction cfs)
  case Nil
  then show ?case by simp
next
  case (Cons cf cfs)
  then show ?case
    by (cases rt) (simp_all add: types_loop_eq count_matching creation_of_def)
qed

lemma find_append_case:
  "find P (xs @ ys) = (case find P xs of None \<Rightarrow> find P ys | Some x \<Rightarrow> Some x)"
  by (induction xs) simp_all

lemma services_loop_eq:
  "services_loop kb rt services =
     (case find (of_type kb rt)
             (concat (map (\<lambda>service. store_each kb service (oslc ''creationFactory'')) services)) of
        None \<Rightarrow> None
      | Some cf \<Rightarrow> Some (creation_of kb cf))"
  by (induction services)
     (simp_all add: creationFactories_loop_eq find_append_case split: option.splits)

text \<open>
  C10. \<open>getCreationFactory\<close> returns the creation URI of the first creation factory, in the
  order of the services and of their factories, that is of the type asked for, and \<open>null\<close> when
  there is none. For a string, a factory is of the type when one of its resource types ends
  with the string; for a named node, when the store holds exactly one resource-type statement
  of the factory for that node.
\<close>

theorem getCreationFactory_first_match:
  "getCreationFactory r rt =
     (case find (of_type (store r) rt) (creationFactories r) of
        None \<Rightarrow> None
      | Some cf \<Rightarrow> creation_of (store r) cf)"
  by (simp add: getCreationFactory_def creationFactories_def services_loop_eq split: option.splits)

section \<open>The authentication negotiator\<close>

lemma await_simps [simp]:
  "await (Resolved x, s) f = f x s"
  "await (Rejected e, s) f = (Rejected e, s)"
  "await (Pending, s) f = (Pending, s)"
  by (simp_all add: await_def)

lemma catch_simps [simp]:
  "catch (Resolved x, s) h = (Resolved x, s)"
  "catch (Rejected e, s) h = h e s"
  "catch (Pending, s) h = (Pending, s)"
  by (simp_all add: catch_def)

lemma always_unauthorized_apply:
  "fst (always_unauthorized req w) = Inr \<lparr> status = 401, headers = [], data = [], config = req \<rparr>"
  "snd (always_unauthorized req w) = w"
  by (simp_all add: always_unauthorized_def)

lemma retry_with_credentials:
  assumes "auth req = Some (userid this, password this)" and "validateStatus req = BaseConfig"
  shows "client_request n rt this always_unauthorized req s =
           (Pending, s\<lparr>sent := sent s @ replicate n req\<rparr>)"
proof (induction n arbitrary: s)
  case 0
  then show ?case by simp
next
  case (Suc n)
  have same: "req\<lparr>auth := Some (userid this, password this)\<rparr> = req"
    using assms(1) by (cases req) simp
  show ?case
    using assms(2) same
    by (simp add: always_unauthorized_apply interceptor_def basic_auth_def Suc.IH
        replicate_append_same)
qed

lemma unauthorized_first:
  assumes "validateStatus req = BaseConfig"
  shows "client_request (Suc n) rt this always_unauthorized req s =
           (Pending, s\<lparr>sent := sent s @ req # replicate n (req\<lparr>auth := Some (userid this, password this)\<rparr>)\<rparr>)"
  using assms
  by (simp add: always_unauthorized_apply interceptor_def basic_auth_def
      retry_with_credentials)

text \<open>
  C2 (fails on the code). A retried request goes through the same instance, so its answer
  meets the interceptor again. Against a server that keeps answering 401, the request with
  the credentials attached is sent again and again: whatever the budget \<open>n\<close>, the original
  request and \<open>n\<close> retries have been sent and the call has not settled. No second failure is
  ever handed to the caller.
\<close>

theorem unauthorized_retried_without_bound:
  "client_request (Suc n) rt this always_unauthorized (get_request u hs) s =
     (Pending,
      s\<lparr>sent := sent s @ get_request u hs
                 # replicate n ((get_request u hs)\<lparr>auth := Some (userid this, password this)\<rparr>)\<rparr>)"
  by (rule unauthorized_first) (simp add: get_request_def)


lemma write_console_fields [simp]:
  "sent (write_console e s) = sent s"
  "world (write_console e s) = world s"
  "console (write_console e s) = console s @ [e]"
  by (simp_all add: write_console_def)

lemma await_extends:
  assumes "prefix tr (sent (snd m))"
    and "\<And>x s1. prefix (sent s1) (sent (snd (f x s1)))"
  shows "prefix tr (sent (snd (await m f)))"
proof (cases "fst m")
  case (Resolved x)
  have "prefix (sent (snd m)) (sent (snd (f x (snd m))))" by (rule assms(2))
  with assms(1) have "prefix tr (sent (snd (f x (snd m))))" by (rule prefix_order.trans)
  with Resolved show ?thesis by (simp add: await_def)
next
  case (Rejected e)
  with assms(1) show ?thesis by (simp add: await_def)
next
  case Pending
  with assms(1) show ?thesis by (simp add: await_def)
qed

lemma catch_extends:
  assumes "prefix tr (sent (snd m))"
    and "\<And>e s1. prefix (sent s1) (sent (snd (h e s1)))"
  shows "prefix tr (sent (snd (catch m h)))"
proof (cases "fst m")
  case (Rejected e)
  have "prefix (sent (snd m)) (sent (snd (h e (snd m))))" by (rule assms(2))
  with assms(1) have "prefix tr (sent (snd (h e (snd m))))" by (rule prefix_order.trans)
  with Rejected show ?thesis by (simp add: catch_def)
next
  case (Resolved x)
  with assms(1) show ?thesis by (simp add: catch_def)
next
  case Pending
  with assms(1) show ?thesis by (simp add: catch_def)
qed

lemma jee_forms_auth_extends:
  assumes "\<And>req s. prefix (sent s) (sent (snd (client req s)))"
  shows "prefix (sent s) (sent (snd (jee_forms_auth rt this client response s)))"
  unfolding jee_forms_auth_def Let_def
  by (rule catch_extends)
     (auto split: option.splits intro!: await_extends assms
       intro: prefix_order.trans [OF _ assms])

lemma jauth_realm_auth_extends:
  assumes "\<And>req s. prefix (sent s) (sent (snd (client req s)))"
  shows "prefix (sent s) (sent (snd (jauth_realm_auth rt this client response h s)))"
  unfolding jauth_realm_auth_def Let_def
  by (auto split: option.splits intro!: catch_extends await_extends assms)

lemma interceptor_extends:
  assumes "\<And>req s. prefix (sent s) (sent (snd (client req s)))"
  shows "prefix (sent s) (sent (snd (interceptor rt this client response s)))"
  unfolding interceptor_def Let_def
  by (auto simp: basic_auth_def intro!: jee_forms_auth_extends jauth_realm_auth_extends assms)

lemma client_request_extends:
  "prefix (sent s) (sent (snd (client_request n rt this srv req s)))"
proof (induction n arbitrary: req s)
  case 0
  then show ?case by simp
next
  case (Suc n)
  let ?s' = "s\<lparr>world := snd (srv req (world s)), sent := sent s @ [req]\<rparr>"
  have step: "\<And>response. prefix (sent ?s') (sent (snd (interceptor rt this (client_request n rt this srv) response ?s')))"
    by (rule interceptor_extends) (rule Suc.IH)
  have "prefix (sent s) (sent ?s')" by simp
  then have "\<And>response. prefix (sent s) (sent (snd (interceptor rt this (client_request n rt this srv) response ?s')))"
    using step prefix_order.trans by blast
  then show ?case
    by (simp add: Let_def split: sum.splits)
qed

lemma client_request_sends_first:
  "prefix (sent s @ [req]) (sent (snd (client_request (Suc n) rt this srv req s)))"
proof -
  let ?s' = "s\<lparr>world := snd (srv req (world s)), sent := sent s @ [req]\<rparr>"
  have "\<And>response. prefix (sent ?s') (sent (snd (interceptor rt this (client_request n rt this srv) response ?s')))"
    by (rule interceptor_extends) (rule client_request_extends)
  then show ?thesis
    by (simp add: Let_def split: sum.splits)
qed


lemma client_request_step:
  assumes "srv req (world s) = (Inr raw, w')"
    and "validate (validateStatus req) (status raw)"
  shows "client_request (Suc m) rt this srv req s =
           interceptor rt this (client_request m rt this srv) (raw\<lparr>config := req\<rparr>)
             (s\<lparr>world := w', sent := sent s @ [req]\<rparr>)"
  using assms by (simp add: Let_def)

lemma split_slash_plain: "CHR ''/'' \<notin> set seg \<Longrightarrow> split_slash seg = [seg]"
  by (induction seg) auto

lemma split_slash_segment:
  "CHR ''/'' \<notin> set seg \<Longrightarrow> split_slash (seg @ CHR ''/'' # rest) = seg # split_slash rest"
  by (induction seg) auto

lemma split_slash_nonempty: "split_slash xs \<noteq> []"
  by (induction xs) (simp_all split: list.splits)

lemma j_security_check_path_first_segment:
  assumes "CHR ''/'' \<notin> set seg" and "rest = [] \<or> hd rest = CHR ''/''"
  shows "j_security_check_path (CHR ''/'' # seg @ rest) =
           (if seg = [] then ''/j_security_check'' else ''/'' @ seg @ ''/j_security_check'')"
proof (cases rest)
  case Nil
  with assms(1) show ?thesis
    by (simp add: j_security_check_path_def split_slash_plain)
next
  case (Cons c cs)
  with assms(2) have "rest = CHR ''/'' # cs" by simp
  with assms(1) have "split_slash (CHR ''/'' # seg @ rest) = [] # seg # split_slash cs"
    by (simp add: split_slash_segment)
  then show ?thesis
    by (simp add: j_security_check_path_def)
qed

lemma login_request_explicit:
  assumes "pathname u = CHR ''/'' # seg @ rest" and "CHR ''/'' \<notin> set seg"
    and "rest = [] \<or> hd rest = CHR ''/''"
  shows "login_request rt this u =
           \<lparr> http_method = ''POST'',
             url = origin u @ (if seg = [] then ''/j_security_check'' else ''/'' @ seg @ ''/j_security_check'')
                   @ search u @ hash u,
             req_headers = [(''Content-Type'', ''application/x-www-form-urlencoded'')],
             req_data = Some (formEncode rt ''j_username'' @ ''='' @ formEncode rt (userid this) @ ''&''
                              @ formEncode rt ''j_password'' @ ''='' @ formEncode rt (password this)),
             auth = None, maxRedirects = Some 0, validateStatus = Only302 \<rparr>"
  using j_security_check_path_first_segment [OF assms(2,3)] assms(1)
  by (simp add: login_request_def URL_toString_def form_body_def)


text \<open>
  C6. When the answer to a request carries the form-authentication marker (whatever its
  status, 401 included, and whatever other challenge header comes with it), the interceptor
  takes the form-login branch: the next request sent is the login request, a POST with no
  redirects followed and only 302 accepted, whose URL is the request's URL with the path
  replaced by \<open>/j_security_check\<close> under the first path segment (query string kept) and
  whose body is the form encoding of \<open>j_username\<close> and \<open>j_password\<close>. It is neither the
  request retried with basic credentials nor a POST to a token endpoint. An answer with no
  marker and a status other than 401 is handed to the caller as it is, with nothing else sent.
\<close>

theorem challenge_priority:
  assumes "srv req (world s) = (Inr raw, w')"
    and "validate (validateStatus req) (status raw)"
  shows "(map_of (headers raw) ''x-com-ibm-team-repository-web-auth-msg'' = Some ''authrequired'' \<and>
          newURL rt (url req) = Some u \<longrightarrow>
            interceptor rt this client (raw\<lparr>config := req\<rparr>) s1 =
              jee_forms_auth rt this client (raw\<lparr>config := req\<rparr>) s1 \<and>
            prefix (sent s @ [req, login_request rt this u])
              (sent (snd (client_request (Suc (Suc n)) rt this srv req s))) \<and>
            login_request rt this u \<noteq> req\<lparr>auth := Some (userid this, password this)\<rparr> \<and>
            login_request rt this u \<noteq> token_request rt this t) \<and>
         (pathname u = CHR ''/'' # seg @ rest \<and> CHR ''/'' \<notin> set seg \<and>
          (rest = [] \<or> hd rest = CHR ''/'') \<longrightarrow>
            login_request rt this u =
              \<lparr> http_method = ''POST'',
                url = origin u
                      @ (if seg = [] then ''/j_security_check'' else ''/'' @ seg @ ''/j_security_check'')
                      @ search u @ hash u,
                req_headers = [(''Content-Type'', ''application/x-www-form-urlencoded'')],
                req_data = Some (formEncode rt ''j_username'' @ ''='' @ formEncode rt (userid this) @ ''&''
                                 @ formEncode rt ''j_password'' @ ''='' @ formEncode rt (password this)),
                auth = None, maxRedirects = Some 0, validateStatus = Only302 \<rparr>) \<and>
         (map_of (headers raw) ''x-com-ibm-team-repository-web-auth-msg'' \<noteq> Some ''authrequired'' \<and>
          status raw \<noteq> 401 \<longrightarrow>
            client_request (Suc n) rt this srv req s =
              (Resolved (raw\<lparr>config := req\<rparr>), s\<lparr>world := w', sent := sent s @ [req]\<rparr>))"
proof (intro conjI impI)
  assume marked: "map_of (headers raw) ''x-com-ibm-team-repository-web-auth-msg'' = Some ''authrequired'' \<and>
                  newURL rt (url req) = Some u"
  then show "interceptor rt this client (raw\<lparr>config := req\<rparr>) s1 =
               jee_forms_auth rt this client (raw\<lparr>config := req\<rparr>) s1"
    by (simp add: interceptor_def)
  let ?s' = "s\<lparr>world := w', sent := sent s @ [req]\<rparr>"
  let ?s0 = "if isNodeEnvironment rt then ?s'
             else write_console
                    (ConsoleWarn ''Form-based authentication in browser requires CORS-enabled backend or proxy'') ?s'"
  let ?client = "client_request (Suc n) rt this srv"
  have s0: "sent ?s0 = sent s @ [req]" by simp
  have "prefix (sent ?s0 @ [login_request rt this u]) (sent (snd (?client (login_request rt this u) ?s0)))"
    by (rule client_request_sends_first)
  then have login: "prefix (sent s @ [req, login_request rt this u])
                      (sent (snd (?client (login_request rt this u) ?s0)))"
    by (simp only: s0 append_assoc append_Cons append_Nil)
  have "prefix (sent s @ [req, login_request rt this u])
          (sent (snd (jee_forms_auth rt this ?client (raw\<lparr>config := req\<rparr>) ?s')))"
    unfolding jee_forms_auth_def Let_def
    using marked login
    by (auto intro!: catch_extends await_extends client_request_extends)
  moreover have "client_request (Suc (Suc n)) rt this srv req s =
                   interceptor rt this ?client (raw\<lparr>config := req\<rparr>) ?s'"
    using assms by (rule client_request_step)
  moreover have "interceptor rt this ?client (raw\<lparr>config := req\<rparr>) ?s' =
                   jee_forms_auth rt this ?client (raw\<lparr>config := req\<rparr>) ?s'"
    using marked by (simp add: interceptor_def del: client_request.simps)
  ultimately
  show "prefix (sent s @ [req, login_request rt this u])
          (sent (snd (client_request (Suc (Suc n)) rt this srv req s)))"
    by (simp only:)
  show "login_request rt this u \<noteq> req\<lparr>auth := Some (userid this, password this)\<rparr>"
    by (cases req) (simp add: login_request_def)
  show "login_request rt this u \<noteq> token_request rt this t"
    by (simp add: login_request_def token_request_def)
next
  assume "pathname u = CHR ''/'' # seg @ rest \<and> CHR ''/'' \<notin> set seg \<and>
          (rest = [] \<or> hd rest = CHR ''/'')"
  then have shape: "pathname u = CHR ''/'' # seg @ rest" and noslash: "CHR ''/'' \<notin> set seg"
    and tail: "rest = [] \<or> hd rest = CHR ''/''"
    by blast+
  show "login_request rt this u =
              \<lparr> http_method = ''POST'',
                url = origin u
                      @ (if seg = [] then ''/j_security_check'' else ''/'' @ seg @ ''/j_security_check'')
                      @ search u @ hash u,
                req_headers = [(''Content-Type'', ''application/x-www-form-urlencoded'')],
                req_data = Some (formEncode rt ''j_username'' @ ''='' @ formEncode rt (userid this) @ ''&''
                                 @ formEncode rt ''j_password'' @ ''='' @ formEncode rt (password this)),
                auth = None, maxRedirects = Some 0, validateStatus = Only302 \<rparr>"
    using shape noslash tail by (rule login_request_explicit)
next
  assume "map_of (headers raw) ''x-com-ibm-team-repository-web-auth-msg'' \<noteq> Some ''authrequired'' \<and>
          status raw \<noteq> 401"
  with assms
  show "client_request (Suc n) rt this srv req s =
          (Resolved (raw\<lparr>config := req\<rparr>), s\<lparr>world := w', sent := sent s @ [req]\<rparr>)"
    by (simp add: interceptor_def Let_def)
qed

theorem challenge_priority_witness:
  "prefix [get_request ''https://srv/ccm/rootservices'' [],
           \<lparr> http_method = ''POST'', url = ''https://srv/ccm/j_security_check'',
             req_headers = [(''Content-Type'', ''application/x-www-form-urlencoded'')],
             req_data = Some ''j_username=bob&j_password=pw'',
             auth = None, maxRedirects = Some 0, validateStatus = Only302 \<rparr>]
     (sent (snd (client_request (Suc (Suc 0)) fixture_runtime fixture_client (\<lambda>req w. (Inr challenged, w))
                   (get_request ''https://srv/ccm/rootservices'' []) initial))) \<and>
   client_request (Suc 0) fixture_runtime fixture_client (\<lambda>req w. (Inr plain, w))
     (get_request ''https://srv/ccm/rootservices'' []) initial =
     (Resolved (plain\<lparr>config := get_request ''https://srv/ccm/rootservices'' []\<rparr>),
      initial\<lparr>world := (), sent := sent initial @ [get_request ''https://srv/ccm/rootservices'' []]\<rparr>) \<and>
   client_request (Suc (Suc 0)) fixture_runtime fixture_client login_server
     (get_request ''https://srv/ccm/rootservices'' []) \<lparr> world = False, sent = [], console = [] \<rparr> =
     (Resolved (plain\<lparr>config := get_request ''https://srv/ccm/rootservices'' []\<rparr>),
      \<lparr> world = True,
        sent = [get_request ''https://srv/ccm/rootservices'' [],
                \<lparr> http_method = ''POST'', url = ''https://srv/ccm/j_security_check'',
                  req_headers = [(''Content-Type'', ''application/x-www-form-urlencoded'')],
                  req_data = Some ''j_username=bob&j_password=pw'',
                  auth = None, maxRedirects = Some 0, validateStatus = Only302 \<rparr>,
                get_request ''https://srv/ccm/rootservices'' []],
        console = [] \<rparr>)"
proof -
  let ?req = "get_request ''https://srv/ccm/rootservices'' []"
  let ?u = "\<lparr> origin = ''https://srv'', pathname = ''/ccm/rootservices'', search = [], hash = [] \<rparr>"
  let ?login = "\<lparr> http_method = ''POST'', url = ''https://srv/ccm/j_security_check'',
             req_headers = [(''Content-Type'', ''application/x-www-form-urlencoded'')],
             req_data = Some ''j_username=bob&j_password=pw'',
             auth = None, maxRedirects = Some 0, validateStatus = Only302 \<rparr>"
  have answer: "(\<lambda>req w. (Inr challenged, w)) ?req (world initial) = (Inr challenged, ())"
    by simp
  have answer2: "(\<lambda>req w. (Inr plain, w)) ?req (world initial) = (Inr plain, ())"
    by simp
  have valid: "validate (validateStatus ?req) (status challenged)"
    by (simp add: get_request_def challenged_def)
  have marked: "map_of (headers challenged) ''x-com-ibm-team-repository-web-auth-msg'' = Some ''authrequired''"
    by (simp add: challenged_def)
  have parsed: "newURL fixture_runtime (url ?req) = Some ?u"
    by (simp add: fixture_runtime_def fixture_newURL_def get_request_def)
  have shape: "pathname ?u = CHR ''/'' # ''ccm'' @ ''/rootservices'' \<and> CHR ''/'' \<notin> set ''ccm'' \<and>
               (''/rootservices'' = [] \<or> hd ''/rootservices'' = CHR ''/'')"
    by simp
  note T = challenge_priority
            [of "\<lambda>req w. (Inr challenged, w)" ?req initial challenged "()" fixture_runtime ?u
                fixture_client "client_request 0 fixture_runtime fixture_client (\<lambda>req w. (Inr challenged, w))"
                initial 0 "[]" "''ccm''" "''/rootservices''"]
  have sends: "prefix (sent initial @ [?req, login_request fixture_runtime fixture_client ?u])
          (sent (snd (client_request (Suc (Suc 0)) fixture_runtime fixture_client
                        (\<lambda>req w. (Inr challenged, w)) ?req initial)))"
    using T answer valid marked parsed by blast
  have "login_request fixture_runtime fixture_client ?u =
              \<lparr> http_method = ''POST'',
                url = origin ?u
                      @ (if ''ccm'' = [] then ''/j_security_check'' else ''/'' @ ''ccm'' @ ''/j_security_check'')
                      @ search ?u @ hash ?u,
                req_headers = [(''Content-Type'', ''application/x-www-form-urlencoded'')],
                req_data = Some (formEncode fixture_runtime ''j_username'' @ ''=''
                                 @ formEncode fixture_runtime (userid fixture_client) @ ''&''
                                 @ formEncode fixture_runtime ''j_password'' @ ''=''
                                 @ formEncode fixture_runtime (password fixture_client)),
                auth = None, maxRedirects = Some 0, validateStatus = Only302 \<rparr>"
    using T answer valid shape by blast
  then have login: "login_request fixture_runtime fixture_client ?u = ?login"
    by (simp add: fixture_runtime_def fixture_client_def)
  from sends have first: "prefix [?req, ?login]
          (sent (snd (client_request (Suc (Suc 0)) fixture_runtime fixture_client
                        (\<lambda>req w. (Inr challenged, w)) ?req initial)))"
    unfolding login by (simp add: initial_def del: client_request.simps)
  have valid2: "validate (validateStatus ?req) (status plain)"
    by (simp add: get_request_def plain_def)
  have unmarked: "map_of (headers plain) ''x-com-ibm-team-repository-web-auth-msg'' \<noteq> Some ''authrequired'' \<and>
                  status plain \<noteq> 401"
    by (simp add: plain_def)
  have second: "client_request (Suc 0) fixture_runtime fixture_client (\<lambda>req w. (Inr plain, w)) ?req initial =
          (Resolved (plain\<lparr>config := ?req\<rparr>), initial\<lparr>world := (), sent := sent initial @ [?req]\<rparr>)"
    using challenge_priority
            [of "\<lambda>req w. (Inr plain, w)" ?req initial plain "()" fixture_runtime ?u
                fixture_client "client_request 0 fixture_runtime fixture_client (\<lambda>req w. (Inr plain, w))"
                initial 0 "[]" "''ccm''" "''/rootservices''"]
      answer2 valid2 unmarked
    by blast
  have third: "client_request (Suc (Suc 0)) fixture_runtime fixture_client login_server ?req
                 \<lparr> world = False, sent = [], console = [] \<rparr> =
     (Resolved (plain\<lparr>config := ?req\<rparr>),
      \<lparr> world = True, sent = [?req, ?login, ?req], console = [] \<rparr>)"
    by (simp add: login_server_def interceptor_def jee_forms_auth_def Let_def challenged_def plain_def
        get_request_def login fixture_runtime_def fixture_newURL_def login_request_def
        URL_toString_def j_security_check_path_def form_body_def fixture_client_def)
  from first second third show ?thesis by (simp only:) 
qed

section \<open>Update\<close>

lemma no_challenge_passes:
  assumes "srv req (world s) = (Inr raw, w')"
    and "map_of (headers raw) ''x-com-ibm-team-repository-web-auth-msg'' \<noteq> Some ''authrequired''"
    and "status raw \<noteq> 401"
  shows "client_request (Suc n) rt this srv req s =
           (if validate (validateStatus req) (status raw)
            then (Resolved (raw\<lparr>config := req\<rparr>), s\<lparr>world := w', sent := sent s @ [req]\<rparr>)
            else (Rejected (BadStatus (raw\<lparr>config := req\<rparr>)), s\<lparr>world := w', sent := sent s @ [req]\<rparr>))"
  using assms by (simp add: interceptor_def Let_def)

lemma If_Match_header:
  "map_of (put_headers v eTag) ''If-Match'' = (if truthy eTag then eTag else None)"
  by (cases eTag) (simp_all add: put_headers_def truthy_def)

lemma putResource_unfolded:
  assumes "srv (put_request (getURI resource) (serialize rt (store resource)) (put_headers v eTag)) (world s)
             = (Inr raw, w')"
    and "map_of (headers raw) ''x-com-ibm-team-repository-web-auth-msg'' \<noteq> Some ''authrequired''"
    and "status raw \<noteq> 401"
  shows "putResource rt (client_request (Suc n) rt this srv) resource eTag v s =
           (if status raw = 200 \<or> status raw = 201 then Resolved resource
            else if status raw < 400
            then Rejected (JsError (''Failed to update resource '' @ getURI resource @ ''. Status: ''
                                     @ show_nat (status raw) @ [CHR 0x0A] @ data raw))
            else Rejected (BadStatus (raw\<lparr>config :=
                   put_request (getURI resource) (serialize rt (store resource)) (put_headers v eTag)\<rparr>)),
            s\<lparr>world := w',
              sent := sent s @ [put_request (getURI resource) (serialize rt (store resource)) (put_headers v eTag)]\<rparr>)"
proof -
  let ?req = "put_request (getURI resource) (serialize rt (store resource)) (put_headers v eTag)"
  have base: "validateStatus ?req = BaseConfig" by (simp add: put_request_def)
  have cr: "client_request (Suc n) rt this srv ?req s =
          (if status raw < 400
           then (Resolved (raw\<lparr>config := ?req\<rparr>), s\<lparr>world := w', sent := sent s @ [?req]\<rparr>)
           else (Rejected (BadStatus (raw\<lparr>config := ?req\<rparr>)), s\<lparr>world := w', sent := sent s @ [?req]\<rparr>))"
    using assms(3)
    by (simp only: no_challenge_passes [of srv ?req s raw w', OF assms] base validate.simps) simp
  show ?thesis
    unfolding putResource_def Let_def cr
    by (cases "status raw < 400") auto
qed


lemma digit_char:
  assumes "d < 10"
  shows "''0123456789'' ! d \<in> set ''0123456789''" and "(of_char (''0123456789'' ! d) :: nat) = 48 + d"
proof -
  from assms have "d \<in> {0, 1, 2, 3, 4, 5, 6, 7, 8, 9}" by auto
  then show "''0123456789'' ! d \<in> set ''0123456789''" and "(of_char (''0123456789'' ! d) :: nat) = 48 + d"
    by auto
qed

lemma show_nat_digits:
  "show_nat n \<noteq> [] \<and> list_all (\<lambda>c. c \<in> set ''0123456789'') (show_nat n) \<and>
   foldl (\<lambda>a c. 10 * a + (of_char c - 48)) 0 (show_nat n) = n"
proof (induction n rule: show_nat.induct)
  case (1 n)
  show ?case
  proof (cases "n < 10")
    case True
    then have eq: "show_nat n = [''0123456789'' ! n]"
      by (subst show_nat.simps) simp
    from True digit_char [of n] show ?thesis
      unfolding eq by simp
  next
    case False
    then have eq: "show_nat n = show_nat (n div 10) @ [''0123456789'' ! (n mod 10)]"
      by (subst show_nat.simps) simp
    have "n mod 10 < 10" by simp
    from digit_char [OF this] 1 [OF False] show ?thesis
      unfolding eq by simp
  qed
qed

lemma read_decimal_show_nat: "read_decimal (show_nat n) = Some n"
  using show_nat_digits [of n] by (simp add: read_decimal_def)

lemma putResource_unanswered:
  "putResource rt (client_request (Suc m) rt this always_unauthorized) resource eTag v s =
     (Pending,
      s\<lparr>sent := sent s @ put_request (getURI resource) (serialize rt (store resource)) (put_headers v eTag)
                 # replicate m ((put_request (getURI resource) (serialize rt (store resource)) (put_headers v eTag))
                                  \<lparr>auth := Some (userid this, password this)\<rparr>)\<rparr>)"
proof -
  let ?req = "put_request (getURI resource) (serialize rt (store resource)) (put_headers v eTag)"
  have "validateStatus ?req = BaseConfig" by (simp add: put_request_def)
  then have "client_request (Suc m) rt this always_unauthorized ?req s =
           (Pending, s\<lparr>sent := sent s @ ?req # replicate m (?req\<lparr>auth := Some (userid this, password this)\<rparr>)\<rparr>)"
    by (rule unauthorized_first)
  then show ?thesis
    unfolding putResource_def Let_def by (simp only: await_simps)
qed


section \<open>Paged queries and parser failures\<close>

lemma site_server_apply:
  "site u = Some r \<Longrightarrow> site_server site (get_request u hs) w = (Inr r, w)"
  by (simp add: site_server_def get_request_def)

lemma site_get:
  assumes "site u = Some r" and "unchallenged r"
  shows "client_request (Suc k) rt this (site_server site) (get_request u hs) s =
           (Resolved (r\<lparr>config := get_request u hs\<rparr>), s\<lparr>sent := sent s @ [get_request u hs]\<rparr>)"
proof -
  have answer: "site_server site (get_request u hs) (world s) = (Inr r, world s)"
    using assms(1) by (rule site_server_apply)
  have marker: "map_of (headers r) ''x-com-ibm-team-repository-web-auth-msg'' \<noteq> Some ''authrequired''"
    and low: "status r < 400"
    using assms(2) by (simp_all add: unchallenged_def)
  from low have not401: "status r \<noteq> 401" by simp
  have valid: "validate (validateStatus (get_request u hs)) (status r)"
    using low by (simp add: get_request_def)
  show ?thesis
    by (simp only: no_challenge_passes [of "site_server site" "get_request u hs" s r "world s", OF answer marker not401]
        valid if_True) simp
qed

lemma parse_into_eq:
  "parse_into rt body base ct kb s =
     (store_add_all kb (fst (rdfParse rt body base ct)),
      s\<lparr>console := console s @ (case snd (rdfParse rt body base ct) of
                                   None \<Rightarrow> [] | Some err \<Rightarrow> [ConsoleError [] (Some err)])\<rparr>)"
  by (simp add: parse_into_def Let_def write_console_def split: option.splits)

lemma nextPage_loop_done:
  "\<not> truthy np \<Longrightarrow> nextPage_loop n rt client base ct kb np s = (Resolved kb, s)"
  by (cases n) simp_all

lemma nextPage_loop_pages:
  assumes "served site pages"
    and "linked rt base ct kb np pages"
    and "length pages \<le> n"
  shows "nextPage_loop n rt (client_request (Suc k) rt this (site_server site)) base ct kb np s =
           (Resolved (accumulated rt base ct kb pages),
            s\<lparr>sent := sent s @ map (\<lambda>page. get_request (fst page) query_headers) pages,
              console := console s @ logged rt base ct pages\<rparr>)"
  using assms
proof (induction pages arbitrary: n kb np s)
  case Nil
  then show ?case by (simp add: nextPage_loop_done)
next
  case (Cons page pages)
  from Cons.prems(3) obtain m where n: "n = Suc m" and m: "length pages \<le> m"
    by (cases n) simp_all
  from Cons.prems(2) have np: "np = Some (fst page)" and nonempty: "fst page \<noteq> []"
    by simp_all
  let ?kb' = "store_add_all kb (fst (rdfParse rt (data (snd page)) base ct))"
  from Cons.prems(2) have link: "linked rt base ct ?kb' (nextPage_of ?kb' (fst page)) pages"
    by simp
  from Cons.prems(1) have site: "site (fst page) = Some (snd page)" and ok: "unchallenged (snd page)"
    and rest: "served site pages"
    by simp_all
  have truthy: "truthy np" using np nonempty by (simp add: truthy_def)
  note get = site_get [of site "fst page" "snd page" k rt this query_headers s, OF site ok]
  let ?client = "client_request (Suc k) rt this (site_server site)"
  let ?errs = "case snd (rdfParse rt (data (snd page)) base ct) of
                 None \<Rightarrow> [] | Some err \<Rightarrow> [ConsoleError [] (Some err)]"
  let ?s1 = "s\<lparr>sent := sent s @ [get_request (fst page) query_headers],
               console := console s @ ?errs\<rparr>"
  have step: "nextPage_loop (Suc m) rt ?client base ct kb np s =
                nextPage_loop m rt ?client base ct ?kb' (nextPage_of ?kb' (fst page)) ?s1"
    using truthy np get
    by (simp add: parse_into_eq Let_def del: client_request.simps)
  have "nextPage_loop m rt ?client base ct ?kb' (nextPage_of ?kb' (fst page)) ?s1 =
          (Resolved (accumulated rt base ct ?kb' pages),
           ?s1\<lparr>sent := sent ?s1 @ map (\<lambda>page. get_request (fst page) query_headers) pages,
               console := console ?s1 @ logged rt base ct pages\<rparr>)"
    using rest link m by (rule Cons.IH)
  then show ?case
    unfolding n step by simp
qed


lemma set_store_add_all: "set (store_add_all kb sts) = set kb \<union> set sts"
proof (induction sts arbitrary: kb)
  case Nil
  then show ?case by (simp add: store_add_all_def)
next
  case (Cons st sts)
  have "store_add_all kb (st # sts) = store_add_all (store_add_statement kb st) sts"
    by (simp add: store_add_all_def)
  moreover have "set (store_add_statement kb st) = insert st (set kb)"
    by (auto simp: store_add_statement_def)
  ultimately show ?case using Cons.IH [of "store_add_statement kb st"] by auto
qed

lemma set_accumulated:
  "set (accumulated rt base ct kb pages) =
     set kb \<union> (\<Union>page \<in> set pages. set (fst (rdfParse rt (data (snd page)) base ct)))"
  by (induction pages arbitrary: kb) (auto simp: set_store_add_all)

lemma logged_member:
  "page \<in> set pages \<Longrightarrow> snd (rdfParse rt (data (snd page)) base ct) = Some err \<Longrightarrow>
   ConsoleError [] (Some err) \<in> set (logged rt base ct pages)"
  by (induction pages) auto

lemma queryWithBase_pages:
  assumes "served site ((query_url rt queryBase query, first) # pages)"
    and "status first = 200"
    and "linked rt (query_url rt queryBase query) (map_of (headers first) ''content-type'')
           (store_add_all [] (fst (rdfParse rt (data first) (query_url rt queryBase query)
                                     (map_of (headers first) ''content-type''))))
           (nextPage_of
              (store_add_all [] (fst (rdfParse rt (data first) (query_url rt queryBase query)
                                        (map_of (headers first) ''content-type''))))
              queryBase)
           pages"
    and "length pages \<le> n"
  shows "queryWithBase n rt (client_request (Suc k) rt this (site_server site)) queryBase query s =
           (Resolved (accumulated rt (query_url rt queryBase query) (map_of (headers first) ''content-type'') []
                        ((query_url rt queryBase query, first) # pages)),
            s\<lparr>sent := sent s @ map (\<lambda>page. get_request (fst page) query_headers)
                                  ((query_url rt queryBase query, first) # pages),
              console := console s @ logged rt (query_url rt queryBase query)
                                        (map_of (headers first) ''content-type'')
                                        ((query_url rt queryBase query, first) # pages)\<rparr>)"
proof -
  let ?U = "query_url rt queryBase query"
  let ?ct = "map_of (headers first) ''content-type''"
  let ?client = "client_request (Suc k) rt this (site_server site)"
  let ?kb1 = "store_add_all [] (fst (rdfParse rt (data first) ?U ?ct))"
  let ?errs = "case snd (rdfParse rt (data first) ?U ?ct) of
                 None \<Rightarrow> [] | Some err \<Rightarrow> [ConsoleError [] (Some err)]"
  let ?s1 = "s\<lparr>sent := sent s @ [get_request ?U query_headers], console := console s @ ?errs\<rparr>"
  from assms(1) have site: "site ?U = Some first" and ok: "unchallenged first" and rest: "served site pages"
    by simp_all
  note get = site_get [of site ?U first k rt this query_headers s, OF site ok]
  have start: "queryWithBase n rt ?client queryBase query s =
                 nextPage_loop n rt ?client ?U ?ct ?kb1 (nextPage_of ?kb1 queryBase) ?s1"
    using get assms(2)
    by (simp add: queryWithBase_def parse_into_eq Let_def del: client_request.simps)
  have "nextPage_loop n rt ?client ?U ?ct ?kb1 (nextPage_of ?kb1 queryBase) ?s1 =
          (Resolved (accumulated rt ?U ?ct ?kb1 pages),
           ?s1\<lparr>sent := sent ?s1 @ map (\<lambda>page. get_request (fst page) query_headers) pages,
               console := console ?s1 @ logged rt ?U ?ct pages\<rparr>)"
    using rest assms(3) assms(4) by (rule nextPage_loop_pages)
  then show ?thesis
    unfolding start by simp
qed

lemma getResource_rdf:
  assumes "client (get_request u [(''Accept'', accept), (''OSLC-Core-Version'', v)]) s = (Resolved response, s1)"
    and "map_of (headers response) ''content-type'' = Some ct"
    and "\<not> str_includes ct ''text/xml''" and "\<not> str_includes ct ''application/xml''"
    and "\<not> str_includes ct ''application/atom+xml''"
    and "u \<noteq> []" and "newURL rt u = Some p"
  shows "getResource rt client u v accept s =
           (Resolved (Resource \<lparr> uri = NamedNode (origin p @ pathname p),
                                  store = store_add_all [] (fst (rdfParse rt (data response) u (Some ct))),
                                  etag = map_of (headers response) ''etag'',
                                  queryURI = Some u \<rparr>),
            s1\<lparr>console := console s1 @ (case snd (rdfParse rt (data response) u (Some ct)) of
                                          None \<Rightarrow> [] | Some err \<Rightarrow> [ConsoleError [] (Some err)])\<rparr>)"
  using assms
  by (simp add: getResource_def Let_def OSLCResource_new_def write_console_def split: option.splits)

text \<open>
  C8. A failure of the graph parser is written to the console and nothing else comes of it.
  \<open>getResource\<close>, given an answer that is taken for RDF whose parse throws \<open>err\<close> after adding
  the statements \<open>sts\<close>, still returns the resource over the store of \<open>sts\<close>. \<open>queryWithBase\<close>,
  given linked pages of which one fails to parse, still returns the store accumulated from
  what every page added. In both cases the error is on the console.
\<close>

theorem parse_failure_not_raised:
  "(client (get_request u [(''Accept'', accept), (''OSLC-Core-Version'', v)]) s = (Resolved response, s1) \<and>
    map_of (headers response) ''content-type'' = Some ct \<and>
    \<not> str_includes ct ''text/xml'' \<and> \<not> str_includes ct ''application/xml'' \<and>
    \<not> str_includes ct ''application/atom+xml'' \<and>
    u \<noteq> [] \<and> newURL rt u = Some p \<and>
    rdfParse rt (data response) u (Some ct) = (sts, Some err) \<longrightarrow>
      getResource rt client u v accept s =
        (Resolved (Resource \<lparr> uri = NamedNode (origin p @ pathname p), store = store_add_all [] sts,
                               etag = map_of (headers response) ''etag'', queryURI = Some u \<rparr>),
         write_console (ConsoleError [] (Some err)) s1)) \<and>
   (served site ((query_url rt queryBase query, first) # pages) \<and>
    status first = 200 \<and>
    linked rt (query_url rt queryBase query) (map_of (headers first) ''content-type'')
      (store_add_all [] (fst (rdfParse rt (data first) (query_url rt queryBase query)
                                (map_of (headers first) ''content-type''))))
      (nextPage_of
         (store_add_all [] (fst (rdfParse rt (data first) (query_url rt queryBase query)
                                   (map_of (headers first) ''content-type''))))
         queryBase)
      pages \<and>
    length pages \<le> n \<and>
    page \<in> set ((query_url rt queryBase query, first) # pages) \<and>
    snd (rdfParse rt (data (snd page)) (query_url rt queryBase query) (map_of (headers first) ''content-type''))
      = Some failure \<longrightarrow>
      fst (queryWithBase n rt (client_request (Suc k) rt this (site_server site)) queryBase query s2) =
        Resolved (accumulated rt (query_url rt queryBase query) (map_of (headers first) ''content-type'') []
                    ((query_url rt queryBase query, first) # pages)) \<and>
      ConsoleError [] (Some failure)
        \<in> set (console (snd (queryWithBase n rt (client_request (Suc k) rt this (site_server site))
                                queryBase query s2))))"
proof (intro conjI impI)
  assume a: "client (get_request u [(''Accept'', accept), (''OSLC-Core-Version'', v)]) s = (Resolved response, s1) \<and>
    map_of (headers response) ''content-type'' = Some ct \<and>
    \<not> str_includes ct ''text/xml'' \<and> \<not> str_includes ct ''application/xml'' \<and>
    \<not> str_includes ct ''application/atom+xml'' \<and>
    u \<noteq> [] \<and> newURL rt u = Some p \<and>
    rdfParse rt (data response) u (Some ct) = (sts, Some err)"
  then have "getResource rt client u v accept s =
           (Resolved (Resource \<lparr> uri = NamedNode (origin p @ pathname p),
                                  store = store_add_all [] (fst (rdfParse rt (data response) u (Some ct))),
                                  etag = map_of (headers response) ''etag'',
                                  queryURI = Some u \<rparr>),
            s1\<lparr>console := console s1 @ (case snd (rdfParse rt (data response) u (Some ct)) of
                                          None \<Rightarrow> [] | Some err \<Rightarrow> [ConsoleError [] (Some err)])\<rparr>)"
    by (intro getResource_rdf) simp_all
  with a show "getResource rt client u v accept s =
        (Resolved (Resource \<lparr> uri = NamedNode (origin p @ pathname p), store = store_add_all [] sts,
                               etag = map_of (headers response) ''etag'', queryURI = Some u \<rparr>),
         write_console (ConsoleError [] (Some err)) s1)"
    by (simp add: write_console_def)
next
  let ?U = "query_url rt queryBase query"
  let ?ct = "map_of (headers first) ''content-type''"
  assume b: "served site ((?U, first) # pages) \<and>
    status first = 200 \<and>
    linked rt ?U ?ct (store_add_all [] (fst (rdfParse rt (data first) ?U ?ct)))
      (nextPage_of (store_add_all [] (fst (rdfParse rt (data first) ?U ?ct))) queryBase) pages \<and>
    length pages \<le> n \<and>
    page \<in> set ((?U, first) # pages) \<and>
    snd (rdfParse rt (data (snd page)) ?U ?ct) = Some failure"
  then have served: "served site ((?U, first) # pages)" and ok: "status first = 200"
    and linked: "linked rt ?U ?ct (store_add_all [] (fst (rdfParse rt (data first) ?U ?ct)))
      (nextPage_of (store_add_all [] (fst (rdfParse rt (data first) ?U ?ct))) queryBase) pages"
    and len: "length pages \<le> n"
    and page: "page \<in> set ((?U, first) # pages)"
    and failed: "snd (rdfParse rt (data (snd page)) ?U ?ct) = Some failure"
    by blast+
  note q = queryWithBase_pages [OF served ok linked len, of k this s2]
  show "fst (queryWithBase n rt (client_request (Suc k) rt this (site_server site)) queryBase query s2) =
        Resolved (accumulated rt ?U ?ct [] ((?U, first) # pages))"
    by (simp only: q fst_conv)
  have "ConsoleError [] (Some failure) \<in> set (logged rt ?U ?ct ((?U, first) # pages))"
    using page failed by (rule logged_member)
  then show "ConsoleError [] (Some failure)
        \<in> set (console (snd (queryWithBase n rt (client_request (Suc k) rt this (site_server site))
                                queryBase query s2)))"
    by (simp only: q snd_conv) simp
qed

section \<open>Discovery\<close>

lemma settle_simps [simp]:
  "settle (Resolved x, s) this f = f x s"
  "settle (Rejected e, s) this f = (Rejected e, this, s)"
  "settle (Pending, s) this f = (Pending, this, s)"
  by (simp_all add: settle_def)

lemma fetch_document_rdf:
  assumes "getResource rt client u ''2.0'' ''application/rdf+xml'' s = (Resolved (Resource r), s1)"
    and "getURI r \<noteq> []" and "newURL rt (getURI r) = Some p"
    and "construct = RootServices_new \<or> construct = ServiceProviderCatalog_new \<or> construct = ServiceProvider_new"
  shows "fetch_document construct rt client u s =
           (Resolved \<lparr> uri = NamedNode (origin p @ pathname p), store = store r, etag = etag r,
                       queryURI = Some (getURI r) \<rparr>, s1)"
  using assms
  by (auto simp: fetch_document_def RootServices_new_def ServiceProviderCatalog_new_def
      ServiceProvider_new_def OSLCResource_new_def)

lemma no_catalog:
  assumes "\<forall>st \<in> set kb. Some (predicate st) \<noteq> pred" and "pred \<noteq> None"
  shows "serviceProviderCatalog \<lparr> uri = subj, store = kb, etag = tag, queryURI = q \<rparr> pred = None"
proof -
  have "filter (matching (Some subj) pred None None) kb = []"
    using assms by (auto simp: filter_empty_conv matching_def wild_def split: option.splits)
  then show ?thesis
    by (simp add: serviceProviderCatalog_def store_the_def store_any_def statementsMatching_def)
qed

lemma serviceProviders_known:
  "domain \<in> {''CM'', ''RM'', ''QM''} \<Longrightarrow> serviceProviders domain \<noteq> None"
  by (auto simp: serviceProviders_def)

text \<open>
  C5. When the root services document was fetched and wrapped, the domain is one of \<open>CM\<close>,
  \<open>RM\<close>, \<open>QM\<close>, and no statement of the document has the catalog predicate of that domain,
  \<open>use\<close> fails with the error that there is no ServiceProviderCatalog for the domain. The state
  is the one the fetch of the root services document left: nothing else was requested.
\<close>

theorem use_domain_not_available:
  assumes "getResource rt client
             ((if suffix ''/'' server_url then butlast server_url else server_url) @ ''/rootservices'')
             ''2.0'' ''application/rdf+xml'' s = (Resolved (Resource r), s1)"
    and "getURI r \<noteq> []" and "newURL rt (getURI r) = Some p"
    and "domain \<in> {''CM'', ''RM'', ''QM''}"
    and "\<forall>st \<in> set (store r). Some (predicate st) \<noteq> serviceProviders domain"
  shows "use rt client this server_url serviceProviderName domain s =
           (Rejected (JsError (''No ServiceProviderCatalog for '' @ domain @ '' services'')),
            this\<lparr>base_url := Some (if suffix ''/'' server_url then butlast server_url else server_url),
                 rootservices := Some \<lparr> uri = NamedNode (origin p @ pathname p), store = store r,
                                         etag = etag r, queryURI = Some (getURI r) \<rparr>\<rparr>,
            s1)"
proof -
  let ?base = "if suffix ''/'' server_url then butlast server_url else server_url"
  have doc: "fetch_document RootServices_new rt client (?base @ ''/rootservices'') s =
           (Resolved \<lparr> uri = NamedNode (origin p @ pathname p), store = store r, etag = etag r,
                       queryURI = Some (getURI r) \<rparr>, s1)"
    using assms(1-3) by (rule fetch_document_rdf) simp
  have none: "serviceProviderCatalog \<lparr> uri = NamedNode (origin p @ pathname p), store = store r, etag = etag r,
                       queryURI = Some (getURI r) \<rparr> (serviceProviders domain) = None"
    using assms(5) serviceProviders_known [OF assms(4)] by (rule no_catalog)
  show ?thesis
    by (simp add: use_def Let_def doc none)
qed


lemma first_match_find:
  "(case filter P xs of [] \<Rightarrow> None | x # _ \<Rightarrow> Some (f x)) =
   (case find P xs of None \<Rightarrow> None | Some x \<Rightarrow> Some (f x))"
  by (induction xs) simp_all

lemma title_matching:
  "matching None (Some (dcterms ''title'')) (Some (Literal t [] XMLLiteral)) None =
   (\<lambda>st. predicate st = dcterms ''title'' \<and> object st = Literal t [] XMLLiteral)"
  by (auto simp: matching_def wild_def fun_eq_iff)

lemma serviceProvider_find:
  "serviceProvider c t =
     (case find (\<lambda>st. predicate st = dcterms ''title'' \<and> object st = Literal t [] XMLLiteral) (store c) of
        None \<Rightarrow> None
      | Some st \<Rightarrow> Some (node_value (subject st)))"
  by (simp add: serviceProvider_def statementsMatching_def Let_def title_matching first_match_find)



section \<open>The scenarios of the fixture\<close>

lemma fixture_runtime_fields [simp]:
  "newURL fixture_runtime = fixture_newURL" "rdfParse fixture_runtime = fixture_parse" "formEncode fixture_runtime = (\<lambda>v. v)"
  "blankNodeId fixture_runtime = ''n0''"
  by (simp_all add: fixture_runtime_def)

lemma fixture_query_url: "query_url fixture_runtime ''https://srv/q'' None = ''https://srv/q?oslc.paging=false''"
  by (simp add: query_url_def form_body_def query_params_def)

lemma rdf_response_content_type: "map_of (headers (rdf_response b)) ''content-type'' = Some ''application/rdf+xml''"
  by (simp add: rdf_response_def)

lemma rdf_response_fields: "unchallenged (rdf_response b)" "status (rdf_response b) = 200" "data (rdf_response b) = b"
  by (simp_all add: unchallenged_def rdf_response_def)

lemma three_served:
  "served fixture_site [(''https://srv/q?oslc.paging=false'', rdf_response ''page 1''),
                   (''https://srv/q?page=2'', rdf_response ''page 2''),
                   (''https://srv/q?page=3'', rdf_response ''page 3'')]"
  by (simp add: fixture_site_def rdf_response_fields)

lemma three_linked:
  "linked fixture_runtime ''https://srv/q?oslc.paging=false'' (Some ''application/rdf+xml'')
     (store_add_all [] (fst (fixture_parse ''page 1'' ''https://srv/q?oslc.paging=false'' (Some ''application/rdf+xml''))))
     (nextPage_of (store_add_all [] (fst (fixture_parse ''page 1'' ''https://srv/q?oslc.paging=false'' (Some ''application/rdf+xml''))))
        ''https://srv/q'')
     [(''https://srv/q?page=2'', rdf_response ''page 2''),
      (''https://srv/q?page=3'', rdf_response ''page 3'')]"
  by (simp add: rdf_response_fields fixture_parse_def store_add_all_def store_add_statement_def nextPage_of_def store_any_def
      statementsMatching_def matching_def wild_def oslc_def rdfs_def truthy_def)

lemma paged_runtime_fields:
  "rdfParse paged_runtime = paged_parse" "formEncode paged_runtime = (\<lambda>v. v)"
  by (simp_all add: paged_runtime_def)

lemma paged_query_url:
  "query_url paged_runtime ''https://srv/r'' None = ''https://srv/r?oslc.paging=false''"
  "query_url paged_runtime ''https://srv/b'' None = ''https://srv/b?oslc.paging=false''"
  by (simp_all add: query_url_def form_body_def query_params_def paged_runtime_fields)

lemma own_first_page:
  "queryWithBase n paged_runtime (client_request (Suc k) paged_runtime this (site_server paged_site))
     ''https://srv/r'' None s =
     (Resolved
        [Statement (NamedNode ''https://srv/r?oslc.paging=false'') (oslc ''nextPage'')
           (NamedNode ''https://srv/r?page=2'') (NamedNode ''https://srv/r?oslc.paging=false''),
         Statement (NamedNode ''https://srv/r'') (rdfs ''member'') (NamedNode ''https://srv/wi/1'')
           (NamedNode ''https://srv/r?oslc.paging=false'')],
      s\<lparr>sent := sent s @ [get_request ''https://srv/r?oslc.paging=false'' query_headers]\<rparr>)"
proof -
  let ?U = "''https://srv/r?oslc.paging=false''"
  have served: "served paged_site ((query_url paged_runtime ''https://srv/r'' None, rdf_response ''own 1'') # [])"
    by (simp add: paged_query_url paged_site_def rdf_response_fields)
  have first: "status (rdf_response ''own 1'') = 200" by (rule rdf_response_fields)
  have linked: "linked paged_runtime (query_url paged_runtime ''https://srv/r'' None)
           (map_of (headers (rdf_response ''own 1'')) ''content-type'')
           (store_add_all [] (fst (rdfParse paged_runtime (data (rdf_response ''own 1''))
                                     (query_url paged_runtime ''https://srv/r'' None)
                                     (map_of (headers (rdf_response ''own 1'')) ''content-type''))))
           (nextPage_of
              (store_add_all [] (fst (rdfParse paged_runtime (data (rdf_response ''own 1''))
                                        (query_url paged_runtime ''https://srv/r'' None)
                                        (map_of (headers (rdf_response ''own 1'')) ''content-type''))))
              ''https://srv/r'')
           []"
    by (simp add: paged_query_url rdf_response_content_type rdf_response_fields paged_runtime_fields
        paged_parse_def store_add_all_def store_add_statement_def nextPage_of_def store_any_def
        statementsMatching_def matching_def wild_def oslc_def rdfs_def truthy_def)
  have len: "length ([] :: (string \<times> response) list) \<le> n" by simp
  from queryWithBase_pages
         [where site = paged_site and rt = paged_runtime and queryBase = "''https://srv/r''" and query = None
            and first = "rdf_response ''own 1''" and pages = "[]" and n = n and k = k
            and this = this and s = s,
          OF served first linked len]
  show ?thesis
    by (simp add: paged_query_url rdf_response_content_type rdf_response_fields paged_runtime_fields
        paged_parse_def store_add_all_def store_add_statement_def oslc_def rdfs_def
        del: client_request.simps)
qed

lemma base_two_pages:
  "queryWithBase (Suc n) paged_runtime (client_request (Suc k) paged_runtime this (site_server paged_site))
     ''https://srv/b'' None s =
     (Resolved
        [Statement (NamedNode ''https://srv/b'') (oslc ''nextPage'')
           (NamedNode ''https://srv/b?page=2'') (NamedNode ''https://srv/b?oslc.paging=false''),
         Statement (NamedNode ''https://srv/b'') (rdfs ''member'') (NamedNode ''https://srv/wi/1'')
           (NamedNode ''https://srv/b?oslc.paging=false''),
         Statement (NamedNode ''https://srv/b'') (oslc ''nextPage'')
           (NamedNode ''https://srv/b?page=3'') (NamedNode ''https://srv/b?oslc.paging=false''),
         Statement (NamedNode ''https://srv/b'') (rdfs ''member'') (NamedNode ''https://srv/wi/2'')
           (NamedNode ''https://srv/b?oslc.paging=false'')],
      s\<lparr>sent := sent s @ [get_request ''https://srv/b?oslc.paging=false'' query_headers,
                           get_request ''https://srv/b?page=2'' query_headers]\<rparr>)"
proof -
  let ?pages = "[(''https://srv/b?page=2'', rdf_response ''base 2'')]"
  have served: "served paged_site ((query_url paged_runtime ''https://srv/b'' None, rdf_response ''base 1'') # ?pages)"
    by (simp add: paged_query_url paged_site_def rdf_response_fields)
  have first: "status (rdf_response ''base 1'') = 200" by (rule rdf_response_fields)
  have linked: "linked paged_runtime (query_url paged_runtime ''https://srv/b'' None)
           (map_of (headers (rdf_response ''base 1'')) ''content-type'')
           (store_add_all [] (fst (rdfParse paged_runtime (data (rdf_response ''base 1''))
                                     (query_url paged_runtime ''https://srv/b'' None)
                                     (map_of (headers (rdf_response ''base 1'')) ''content-type''))))
           (nextPage_of
              (store_add_all [] (fst (rdfParse paged_runtime (data (rdf_response ''base 1''))
                                        (query_url paged_runtime ''https://srv/b'' None)
                                        (map_of (headers (rdf_response ''base 1'')) ''content-type''))))
              ''https://srv/b'')
           ?pages"
    by (simp add: paged_query_url rdf_response_content_type rdf_response_fields paged_runtime_fields
        paged_parse_def store_add_all_def store_add_statement_def nextPage_of_def store_any_def
        statementsMatching_def matching_def wild_def oslc_def rdfs_def truthy_def)
  have len: "length ?pages \<le> Suc n" by simp
  from queryWithBase_pages
         [where site = paged_site and rt = paged_runtime and queryBase = "''https://srv/b''" and query = None
            and first = "rdf_response ''base 1''" and pages = ?pages and n = "Suc n" and k = k
            and this = this and s = s,
          OF served first linked len]
  show ?thesis
    by (simp add: paged_query_url rdf_response_content_type rdf_response_fields paged_runtime_fields
        paged_parse_def store_add_all_def store_add_statement_def oslc_def rdfs_def
        del: client_request.simps)
qed

text \<open>
  C3. Against a result of three pages, each served with status 200 and without a challenge,
  \<open>queryWithBase\<close> does not fetch three pages and does not return their union. The link out
  of the first page is looked for under the query base, the link out of every later page
  under the URL that page was fetched from. When each page names its successor in a
  statement about its own URL, the first page is fetched from the query base with the query
  string appended, no link is found under the query base, and the query returns the first
  page alone after one request. When each page names its successor in a statement about the
  query base, the second page is fetched, no link is found under its URL, and the query
  returns two pages after two requests. In both results the third page is served at the URL
  the second page names, and its member statement is not in the store returned.
\<close>

theorem queryWithBase_misses_linked_pages:
  "queryWithBase n paged_runtime (client_request (Suc k) paged_runtime this (site_server paged_site))
     ''https://srv/r'' None initial =
     (Resolved
        [Statement (NamedNode ''https://srv/r?oslc.paging=false'') (oslc ''nextPage'')
           (NamedNode ''https://srv/r?page=2'') (NamedNode ''https://srv/r?oslc.paging=false''),
         Statement (NamedNode ''https://srv/r'') (rdfs ''member'') (NamedNode ''https://srv/wi/1'')
           (NamedNode ''https://srv/r?oslc.paging=false'')],
      initial\<lparr>sent := [get_request ''https://srv/r?oslc.paging=false'' query_headers]\<rparr>) \<and>
   paged_site ''https://srv/r?page=2'' = Some (rdf_response ''own 2'') \<and>
   fst (paged_parse ''own 2'' ''https://srv/r?oslc.paging=false'' (Some ''application/rdf+xml'')) =
     [Statement (NamedNode ''https://srv/r?page=2'') (oslc ''nextPage'')
        (NamedNode ''https://srv/r?page=3'') (NamedNode ''https://srv/r?oslc.paging=false''),
      Statement (NamedNode ''https://srv/r'') (rdfs ''member'') (NamedNode ''https://srv/wi/2'')
        (NamedNode ''https://srv/r?oslc.paging=false'')] \<and>
   paged_site ''https://srv/r?page=3'' = Some (rdf_response ''own 3'') \<and>
   fst (paged_parse ''own 3'' ''https://srv/r?oslc.paging=false'' (Some ''application/rdf+xml'')) =
     [Statement (NamedNode ''https://srv/r'') (rdfs ''member'') (NamedNode ''https://srv/wi/3'')
        (NamedNode ''https://srv/r?oslc.paging=false'')] \<and>
   queryWithBase (Suc n) paged_runtime (client_request (Suc k) paged_runtime this (site_server paged_site))
     ''https://srv/b'' None initial =
     (Resolved
        [Statement (NamedNode ''https://srv/b'') (oslc ''nextPage'')
           (NamedNode ''https://srv/b?page=2'') (NamedNode ''https://srv/b?oslc.paging=false''),
         Statement (NamedNode ''https://srv/b'') (rdfs ''member'') (NamedNode ''https://srv/wi/1'')
           (NamedNode ''https://srv/b?oslc.paging=false''),
         Statement (NamedNode ''https://srv/b'') (oslc ''nextPage'')
           (NamedNode ''https://srv/b?page=3'') (NamedNode ''https://srv/b?oslc.paging=false''),
         Statement (NamedNode ''https://srv/b'') (rdfs ''member'') (NamedNode ''https://srv/wi/2'')
           (NamedNode ''https://srv/b?oslc.paging=false'')],
      initial\<lparr>sent := [get_request ''https://srv/b?oslc.paging=false'' query_headers,
                         get_request ''https://srv/b?page=2'' query_headers]\<rparr>) \<and>
   paged_site ''https://srv/b?page=3'' = Some (rdf_response ''base 3'') \<and>
   fst (paged_parse ''base 3'' ''https://srv/b?oslc.paging=false'' (Some ''application/rdf+xml'')) =
     [Statement (NamedNode ''https://srv/b'') (rdfs ''member'') (NamedNode ''https://srv/wi/3'')
        (NamedNode ''https://srv/b?oslc.paging=false'')]"
proof -
  have own: "queryWithBase n paged_runtime (client_request (Suc k) paged_runtime this (site_server paged_site))
     ''https://srv/r'' None initial =
     (Resolved
        [Statement (NamedNode ''https://srv/r?oslc.paging=false'') (oslc ''nextPage'')
           (NamedNode ''https://srv/r?page=2'') (NamedNode ''https://srv/r?oslc.paging=false''),
         Statement (NamedNode ''https://srv/r'') (rdfs ''member'') (NamedNode ''https://srv/wi/1'')
           (NamedNode ''https://srv/r?oslc.paging=false'')],
      initial\<lparr>sent := [get_request ''https://srv/r?oslc.paging=false'' query_headers]\<rparr>)"
    by (simp only: own_first_page) (simp add: initial_def)
  have base: "queryWithBase (Suc n) paged_runtime (client_request (Suc k) paged_runtime this (site_server paged_site))
     ''https://srv/b'' None initial =
     (Resolved
        [Statement (NamedNode ''https://srv/b'') (oslc ''nextPage'')
           (NamedNode ''https://srv/b?page=2'') (NamedNode ''https://srv/b?oslc.paging=false''),
         Statement (NamedNode ''https://srv/b'') (rdfs ''member'') (NamedNode ''https://srv/wi/1'')
           (NamedNode ''https://srv/b?oslc.paging=false''),
         Statement (NamedNode ''https://srv/b'') (oslc ''nextPage'')
           (NamedNode ''https://srv/b?page=3'') (NamedNode ''https://srv/b?oslc.paging=false''),
         Statement (NamedNode ''https://srv/b'') (rdfs ''member'') (NamedNode ''https://srv/wi/2'')
           (NamedNode ''https://srv/b?oslc.paging=false'')],
      initial\<lparr>sent := [get_request ''https://srv/b?oslc.paging=false'' query_headers,
                         get_request ''https://srv/b?page=2'' query_headers]\<rparr>)"
    by (simp only: base_two_pages) (simp add: initial_def)
  have pages:
    "paged_site ''https://srv/r?page=2'' = Some (rdf_response ''own 2'')"
    "fst (paged_parse ''own 2'' ''https://srv/r?oslc.paging=false'' (Some ''application/rdf+xml'')) =
     [Statement (NamedNode ''https://srv/r?page=2'') (oslc ''nextPage'')
        (NamedNode ''https://srv/r?page=3'') (NamedNode ''https://srv/r?oslc.paging=false''),
      Statement (NamedNode ''https://srv/r'') (rdfs ''member'') (NamedNode ''https://srv/wi/2'')
        (NamedNode ''https://srv/r?oslc.paging=false'')]"
    "paged_site ''https://srv/r?page=3'' = Some (rdf_response ''own 3'')"
    "fst (paged_parse ''own 3'' ''https://srv/r?oslc.paging=false'' (Some ''application/rdf+xml'')) =
     [Statement (NamedNode ''https://srv/r'') (rdfs ''member'') (NamedNode ''https://srv/wi/3'')
        (NamedNode ''https://srv/r?oslc.paging=false'')]"
    "paged_site ''https://srv/b?page=3'' = Some (rdf_response ''base 3'')"
    "fst (paged_parse ''base 3'' ''https://srv/b?oslc.paging=false'' (Some ''application/rdf+xml'')) =
     [Statement (NamedNode ''https://srv/b'') (rdfs ''member'') (NamedNode ''https://srv/wi/3'')
        (NamedNode ''https://srv/b?oslc.paging=false'')]"
    by (simp_all add: paged_site_def paged_parse_def)
  from own base pages show ?thesis by (simp only:)
qed

lemma page3_url:
  "fixture_newURL ''https://srv/q?page=3'' =
     Some \<lparr> origin = ''https://srv'', pathname = ''/q'', search = ''?page=3'', hash = [] \<rparr>"
  by (simp add: fixture_newURL_def)

theorem parse_failure_not_raised_witness:
  "getResource fixture_runtime (client_request (Suc 0) fixture_runtime fixture_client (site_server fixture_site))
     ''https://srv/q?page=3'' ''2.0'' ''application/rdf+xml'' initial =
     (Resolved (Resource \<lparr> uri = NamedNode ''https://srv/q'',
                            store = store_add_all []
                              [Statement (NamedNode ''https://srv/q'') (rdfs ''member'')
                                 (NamedNode ''https://srv/wi/3'') (NamedNode ''https://srv/q?page=3'')],
                            etag = None, queryURI = Some ''https://srv/q?page=3'' \<rparr>),
      write_console (ConsoleError [] (Some (JsError ''unexpected end of input'')))
        (initial\<lparr>sent := sent initial @
           [get_request ''https://srv/q?page=3'' [(''Accept'', ''application/rdf+xml''), (''OSLC-Core-Version'', ''2.0'')]]\<rparr>)) \<and>
   fst (queryWithBase 2 fixture_runtime (client_request (Suc 0) fixture_runtime fixture_client (site_server fixture_site))
          ''https://srv/q'' None initial) =
     Resolved (accumulated fixture_runtime ''https://srv/q?oslc.paging=false'' (Some ''application/rdf+xml'') []
                 [(''https://srv/q?oslc.paging=false'', rdf_response ''page 1''),
                  (''https://srv/q?page=2'', rdf_response ''page 2''),
                  (''https://srv/q?page=3'', rdf_response ''page 3'')]) \<and>
   ConsoleError [] (Some (JsError ''unexpected end of input''))
     \<in> set (console (snd (queryWithBase 2 fixture_runtime
                             (client_request (Suc 0) fixture_runtime fixture_client (site_server fixture_site))
                             ''https://srv/q'' None initial)))"
proof -
  let ?client = "client_request (Suc 0) fixture_runtime fixture_client (site_server fixture_site)"
  let ?u = "''https://srv/q?page=3''"
  let ?hs = "[(''Accept'', ''application/rdf+xml''), (''OSLC-Core-Version'', ''2.0'')]"
  let ?s1 = "initial\<lparr>sent := sent initial @ [get_request ?u ?hs]\<rparr>"
  let ?resp = "(rdf_response ''page 3'')\<lparr>config := get_request ?u ?hs\<rparr>"
  let ?pages = "[(''https://srv/q?page=2'', rdf_response ''page 2''),
                 (''https://srv/q?page=3'', rdf_response ''page 3'')]"
  let ?sts = "[Statement (NamedNode ''https://srv/q'') (rdfs ''member'')
                 (NamedNode ''https://srv/wi/3'') (NamedNode ''https://srv/q?page=3'')]"
  let ?err = "JsError ''unexpected end of input''"
  have site: "fixture_site ?u = Some (rdf_response ''page 3'')" by (simp add: fixture_site_def)
  have fetched: "?client (get_request ?u ?hs) initial = (Resolved ?resp, ?s1)"
    using site rdf_response_fields(1) by (rule site_get)
  have a: "?client (get_request ?u ?hs) initial = (Resolved ?resp, ?s1) \<and>
    map_of (headers ?resp) ''content-type'' = Some ''application/rdf+xml'' \<and>
    \<not> str_includes ''application/rdf+xml'' ''text/xml'' \<and>
    \<not> str_includes ''application/rdf+xml'' ''application/xml'' \<and>
    \<not> str_includes ''application/rdf+xml'' ''application/atom+xml'' \<and>
    ?u \<noteq> [] \<and> newURL fixture_runtime ?u = Some \<lparr> origin = ''https://srv'', pathname = ''/q'', search = ''?page=3'', hash = [] \<rparr> \<and>
    rdfParse fixture_runtime (data ?resp) ?u (Some ''application/rdf+xml'') = (?sts, Some ?err)"
    using fetched by (simp add: page3_url rdf_response_def fixture_parse_def del: client_request.simps)
  have served: "served fixture_site ((query_url fixture_runtime ''https://srv/q'' None, rdf_response ''page 1'') # ?pages)"
    by (simp only: fixture_query_url three_served)
  have linked: "linked fixture_runtime (query_url fixture_runtime ''https://srv/q'' None)
           (map_of (headers (rdf_response ''page 1'')) ''content-type'')
           (store_add_all [] (fst (rdfParse fixture_runtime (data (rdf_response ''page 1''))
                                     (query_url fixture_runtime ''https://srv/q'' None)
                                     (map_of (headers (rdf_response ''page 1'')) ''content-type''))))
           (nextPage_of
              (store_add_all [] (fst (rdfParse fixture_runtime (data (rdf_response ''page 1''))
                                        (query_url fixture_runtime ''https://srv/q'' None)
                                        (map_of (headers (rdf_response ''page 1'')) ''content-type''))))
              ''https://srv/q'')
           ?pages"
    by (simp only: fixture_query_url rdf_response_content_type rdf_response_fields fixture_runtime_fields three_linked)
  have failed: "snd (rdfParse fixture_runtime (data (snd (''https://srv/q?page=3'', rdf_response ''page 3'')))
                       (query_url fixture_runtime ''https://srv/q'' None)
                       (map_of (headers (rdf_response ''page 1'')) ''content-type'')) = Some ?err"
    by (simp add: rdf_response_fields fixture_parse_def)
  have b: "served fixture_site ((query_url fixture_runtime ''https://srv/q'' None, rdf_response ''page 1'') # ?pages) \<and>
    status (rdf_response ''page 1'') = 200 \<and>
    linked fixture_runtime (query_url fixture_runtime ''https://srv/q'' None)
      (map_of (headers (rdf_response ''page 1'')) ''content-type'')
      (store_add_all [] (fst (rdfParse fixture_runtime (data (rdf_response ''page 1''))
                                (query_url fixture_runtime ''https://srv/q'' None)
                                (map_of (headers (rdf_response ''page 1'')) ''content-type''))))
      (nextPage_of
         (store_add_all [] (fst (rdfParse fixture_runtime (data (rdf_response ''page 1''))
                                   (query_url fixture_runtime ''https://srv/q'' None)
                                   (map_of (headers (rdf_response ''page 1'')) ''content-type''))))
         ''https://srv/q'')
      ?pages \<and>
    length ?pages \<le> 2 \<and>
    (''https://srv/q?page=3'', rdf_response ''page 3'')
      \<in> set ((query_url fixture_runtime ''https://srv/q'' None, rdf_response ''page 1'') # ?pages) \<and>
    snd (rdfParse fixture_runtime (data (snd (''https://srv/q?page=3'', rdf_response ''page 3'')))
           (query_url fixture_runtime ''https://srv/q'' None)
           (map_of (headers (rdf_response ''page 1'')) ''content-type'')) = Some ?err"
    using served linked failed rdf_response_fields(2) by simp
  note T = parse_failure_not_raised
         [where client = ?client and u = ?u and accept = "''application/rdf+xml''" and v = "''2.0''"
            and s = initial and response = ?resp and ?s1.0 = ?s1 and ct = "''application/rdf+xml''"
            and rt = fixture_runtime
            and p = "\<lparr> origin = ''https://srv'', pathname = ''/q'', search = ''?page=3'', hash = [] \<rparr>"
            and sts = ?sts and err = ?err
            and site = fixture_site and queryBase = "''https://srv/q''" and query = None
            and first = "rdf_response ''page 1''" and pages = ?pages and n = 2
            and page = "(''https://srv/q?page=3'', rdf_response ''page 3'')" and failure = ?err
            and k = 0 and this = fixture_client and ?s2.0 = initial]
  from T a have part1: "getResource fixture_runtime ?client ?u ''2.0'' ''application/rdf+xml'' initial =
        (Resolved (Resource \<lparr> uri = NamedNode (origin \<lparr> origin = ''https://srv'', pathname = ''/q'', search = ''?page=3'', hash = [] \<rparr>
                                                   @ pathname \<lparr> origin = ''https://srv'', pathname = ''/q'', search = ''?page=3'', hash = [] \<rparr>),
                               store = store_add_all [] ?sts,
                               etag = map_of (headers ?resp) ''etag'', queryURI = Some ?u \<rparr>),
         write_console (ConsoleError [] (Some ?err)) ?s1)"
    by blast
  from T b have part2: "fst (queryWithBase 2 fixture_runtime ?client ''https://srv/q'' None initial) =
        Resolved (accumulated fixture_runtime (query_url fixture_runtime ''https://srv/q'' None)
                    (map_of (headers (rdf_response ''page 1'')) ''content-type'') []
                    ((query_url fixture_runtime ''https://srv/q'' None, rdf_response ''page 1'') # ?pages)) \<and>
      ConsoleError [] (Some ?err)
        \<in> set (console (snd (queryWithBase 2 fixture_runtime ?client ''https://srv/q'' None initial)))"
    by blast
  from part1 have p1: "getResource fixture_runtime ?client ?u ''2.0'' ''application/rdf+xml'' initial =
     (Resolved (Resource \<lparr> uri = NamedNode ''https://srv/q'', store = store_add_all [] ?sts,
                            etag = None, queryURI = Some ?u \<rparr>),
      write_console (ConsoleError [] (Some ?err)) ?s1)"
    by (simp add: rdf_response_def del: client_request.simps)
  from part2 have p2: "fst (queryWithBase 2 fixture_runtime ?client ''https://srv/q'' None initial) =
     Resolved (accumulated fixture_runtime ''https://srv/q?oslc.paging=false'' (Some ''application/rdf+xml'') []
                 ((''https://srv/q?oslc.paging=false'', rdf_response ''page 1'') # ?pages)) \<and>
     ConsoleError [] (Some ?err)
        \<in> set (console (snd (queryWithBase 2 fixture_runtime ?client ''https://srv/q'' None initial)))"
    by (simp only: fixture_query_url rdf_response_content_type)
  from p1 p2 show ?thesis by (rule conjI)
qed

lemma fixture_getResource:
  assumes "fixture_site u = Some (rdf_response b)" and "fixture_newURL u = Some p" and "u \<noteq> []"
  shows "getResource fixture_runtime (client_request (Suc 0) fixture_runtime fixture_client (site_server fixture_site))
           u ''2.0'' ''application/rdf+xml'' s =
           (Resolved (Resource \<lparr> uri = NamedNode (origin p @ pathname p),
                                  store = store_add_all [] (fst (fixture_parse b u (Some ''application/rdf+xml''))),
                                  etag = None, queryURI = Some u \<rparr>),
            s\<lparr>sent := sent s @ [get_request u [(''Accept'', ''application/rdf+xml''), (''OSLC-Core-Version'', ''2.0'')]],
              console := console s @ (case snd (fixture_parse b u (Some ''application/rdf+xml'')) of
                                        None \<Rightarrow> [] | Some err \<Rightarrow> [ConsoleError [] (Some err)])\<rparr>)"
proof -
  let ?client = "client_request (Suc 0) fixture_runtime fixture_client (site_server fixture_site)"
  let ?hs = "[(''Accept'', ''application/rdf+xml''), (''OSLC-Core-Version'', ''2.0'')]"
  let ?resp = "(rdf_response b)\<lparr>config := get_request u ?hs\<rparr>"
  let ?s1 = "s\<lparr>sent := sent s @ [get_request u ?hs]\<rparr>"
  have fetched: "?client (get_request u ?hs) s = (Resolved ?resp, ?s1)"
    using assms(1) rdf_response_fields(1) by (rule site_get)
  have ctype: "map_of (headers ?resp) ''content-type'' = Some ''application/rdf+xml''"
    by (simp add: rdf_response_def)
  have n1: "\<not> str_includes ''application/rdf+xml'' ''text/xml''" by simp
  have n2: "\<not> str_includes ''application/rdf+xml'' ''application/xml''" by simp
  have n3: "\<not> str_includes ''application/rdf+xml'' ''application/atom+xml''" by simp
  have url: "newURL fixture_runtime u = Some p" using assms(2) by simp
  from getResource_rdf [of ?client u "''application/rdf+xml''" "''2.0''" s ?resp ?s1 "''application/rdf+xml''"
                           fixture_runtime p, OF fetched ctype n1 n2 n3 assms(3) url]
  show ?thesis
    by (simp add: rdf_response_def del: client_request.simps)
qed

lemma root_url:
  "fixture_newURL ''https://srv/ccm/rootservices'' =
     Some \<lparr> origin = ''https://srv'', pathname = ''/ccm/rootservices'', search = [], hash = [] \<rparr>"
  by (simp add: fixture_newURL_def)

lemma catalog_url:
  "fixture_newURL ''https://srv/ccm/catalog'' =
     Some \<lparr> origin = ''https://srv'', pathname = ''/ccm/catalog'', search = [], hash = [] \<rparr>"
  by (simp add: fixture_newURL_def)

lemma root_fetched:
  "getResource fixture_runtime (client_request (Suc 0) fixture_runtime fixture_client (site_server fixture_site))
     ''https://srv/ccm/rootservices'' ''2.0'' ''application/rdf+xml'' s =
     (Resolved (Resource \<lparr> uri = NamedNode ''https://srv/ccm/rootservices'',
                            store = [Statement (NamedNode ''https://srv/ccm/rootservices'')
                                       (oslc_cm1 ''cmServiceProviders'') (NamedNode ''https://srv/ccm/catalog'')
                                       (NamedNode ''https://srv/ccm/rootservices'')],
                            etag = None, queryURI = Some ''https://srv/ccm/rootservices'' \<rparr>),
      s\<lparr>sent := sent s @ [get_request ''https://srv/ccm/rootservices''
                              [(''Accept'', ''application/rdf+xml''), (''OSLC-Core-Version'', ''2.0'')]]\<rparr>)"
proof -
  have site: "fixture_site ''https://srv/ccm/rootservices'' = Some (rdf_response ''rootservices'')"
    by (simp add: fixture_site_def)
  have nonempty: "''https://srv/ccm/rootservices'' \<noteq> []" by simp
  from fixture_getResource [OF site root_url nonempty, of s]
  show ?thesis
    by (simp add: fixture_parse_def store_add_all_def store_add_statement_def del: client_request.simps)
qed

lemma catalog_fetched:
  "getResource fixture_runtime (client_request (Suc 0) fixture_runtime fixture_client (site_server fixture_site))
     ''https://srv/ccm/catalog'' ''2.0'' ''application/rdf+xml'' s =
     (Resolved (Resource \<lparr> uri = NamedNode ''https://srv/ccm/catalog'',
                            store = [Statement (NamedNode ''https://srv/ccm/sp/1'') (dcterms ''title'')
                                       (Literal ''Alpha Project'' [] XMLLiteral)
                                       (NamedNode ''https://srv/ccm/catalog'')],
                            etag = None, queryURI = Some ''https://srv/ccm/catalog'' \<rparr>),
      s\<lparr>sent := sent s @ [get_request ''https://srv/ccm/catalog''
                              [(''Accept'', ''application/rdf+xml''), (''OSLC-Core-Version'', ''2.0'')]]\<rparr>)"
proof -
  have site: "fixture_site ''https://srv/ccm/catalog'' = Some (rdf_response ''catalog'')"
    by (simp add: fixture_site_def)
  have nonempty: "''https://srv/ccm/catalog'' \<noteq> []" by simp
  from fixture_getResource [OF site catalog_url nonempty, of s]
  show ?thesis
    by (simp add: fixture_parse_def store_add_all_def store_add_statement_def del: client_request.simps)
qed

theorem use_domain_not_available_witness:
  "use fixture_runtime (client_request (Suc 0) fixture_runtime fixture_client (site_server fixture_site))
     fixture_client ''https://srv/ccm/'' ''Alpha Project'' ''QM'' initial =
     (Rejected (JsError ''No ServiceProviderCatalog for QM services''),
      fixture_client\<lparr>base_url := Some ''https://srv/ccm'',
        rootservices := Some \<lparr> uri = NamedNode ''https://srv/ccm/rootservices'',
                                store = [Statement (NamedNode ''https://srv/ccm/rootservices'')
                                           (oslc_cm1 ''cmServiceProviders'') (NamedNode ''https://srv/ccm/catalog'')
                                           (NamedNode ''https://srv/ccm/rootservices'')],
                                etag = None, queryURI = Some ''https://srv/ccm/rootservices'' \<rparr>\<rparr>,
      initial\<lparr>sent := sent initial @ [get_request ''https://srv/ccm/rootservices''
                              [(''Accept'', ''application/rdf+xml''), (''OSLC-Core-Version'', ''2.0'')]]\<rparr>)"
proof -
  let ?client = "client_request (Suc 0) fixture_runtime fixture_client (site_server fixture_site)"
  let ?r = "\<lparr> uri = NamedNode ''https://srv/ccm/rootservices'',
              store = [Statement (NamedNode ''https://srv/ccm/rootservices'')
                         (oslc_cm1 ''cmServiceProviders'') (NamedNode ''https://srv/ccm/catalog'')
                         (NamedNode ''https://srv/ccm/rootservices'')],
              etag = None, queryURI = Some ''https://srv/ccm/rootservices'' \<rparr>"
  let ?s1 = "initial\<lparr>sent := sent initial @ [get_request ''https://srv/ccm/rootservices''
                              [(''Accept'', ''application/rdf+xml''), (''OSLC-Core-Version'', ''2.0'')]]\<rparr>"
  let ?p = "\<lparr> origin = ''https://srv'', pathname = ''/ccm/rootservices'', search = [], hash = [] \<rparr>"
  have fetched: "getResource fixture_runtime ?client
             ((if suffix ''/'' ''https://srv/ccm/'' then butlast ''https://srv/ccm/'' else ''https://srv/ccm/'')
              @ ''/rootservices'')
             ''2.0'' ''application/rdf+xml'' initial = (Resolved (Resource ?r), ?s1)"
    using root_fetched [of initial] by (simp add: suffix_def del: client_request.simps)
  have nonempty: "getURI ?r \<noteq> []" by (simp add: getURI_def)
  have parsed: "newURL fixture_runtime (getURI ?r) = Some ?p" by (simp add: getURI_def root_url)
  have domain: "''QM'' \<in> {''CM'', ''RM'', ''QM''}" by simp
  have lacks: "\<forall>st \<in> set (store ?r). Some (predicate st) \<noteq> serviceProviders ''QM''"
    by (simp add: serviceProviders_def oslc_cm1_def oslc_qm1_def)
  from use_domain_not_available
         [where rt = fixture_runtime and client = ?client and server_url = "''https://srv/ccm/''"
            and s = initial and r = ?r and ?s1.0 = ?s1 and p = ?p and domain = "''QM''"
            and this = fixture_client and serviceProviderName = "''Alpha Project''",
          OF fetched nonempty parsed domain lacks]
  show ?thesis
    by (simp add: suffix_def getURI_def del: client_request.simps)
qed


lemma show_nat_204: "show_nat 204 = ''204''"
  by (simp add: show_nat.simps)

lemma work_item_put:
  "put_request (getURI work_item) (serialize fixture_runtime (store work_item)) (put_headers ''2.0'' (Some ''e1'')) =
     \<lparr> http_method = ''PUT'', url = ''https://srv/ccm/wi/7'',
       req_headers = [(''OSLC-Core-Version'', ''2.0''),
                      (''Content-Type'', ''application/rdf+xml; charset=utf-8''),
                      (''Accept'', ''application/rdf+xml''),
                      (''If-Match'', ''e1'')],
       req_data = Some ''<rdf:RDF/>'', auth = None, maxRedirects = None, validateStatus = BaseConfig \<rparr>"
  by (simp add: put_request_def getURI_def work_item_def fixture_runtime_def put_headers_def)



theorem getCreationFactory_first_match_witness:
  "getCreationFactory provider (TypeString ''ChangeRequest'') = Some ''https://srv/ccm/create/1'' \<and>
   getCreationFactory provider (TypeNode (NamedNode ''http://open-services.net/ns/cm#ChangeRequest''))
     = Some ''https://srv/ccm/create/2'' \<and>
   getCreationFactory provider (TypeString ''Defect'') = None"
proof -
  have factories: "creationFactories provider = [BlankNode ''cf1'', BlankNode ''cf2'']"
    by (simp add: creationFactories_def provider_def store_each_def statementsMatching_def
        matching_def wild_def oslc_def)
  have by_suffix: "getCreationFactory provider (TypeString ''ChangeRequest'') = Some ''https://srv/ccm/create/1''"
    using getCreationFactory_first_match [of provider "TypeString ''ChangeRequest''"]
    by (simp add: factories)
       (simp add: provider_def store_each_def statementsMatching_def matching_def wild_def oslc_def
          creation_of_def value_or_null_def store_the_def store_any_def suffix_to_prefix)
  have by_node: "getCreationFactory provider (TypeNode (NamedNode ''http://open-services.net/ns/cm#ChangeRequest''))
     = Some ''https://srv/ccm/create/2''"
    using getCreationFactory_first_match
            [of provider "TypeNode (NamedNode ''http://open-services.net/ns/cm#ChangeRequest'')"]
    by (simp add: factories)
       (simp add: provider_def store_each_def statementsMatching_def matching_def wild_def oslc_def
          creation_of_def value_or_null_def store_the_def store_any_def)
  have none: "getCreationFactory provider (TypeString ''Defect'') = None"
    using getCreationFactory_first_match [of provider "TypeString ''Defect''"]
    by (simp add: factories)
       (simp add: provider_def store_each_def statementsMatching_def matching_def wild_def oslc_def
          creation_of_def value_or_null_def store_the_def store_any_def suffix_to_prefix)
  from by_suffix by_node none show ?thesis by (simp only:) 
qed

end
